theory Spec2Isabelle
  imports Complex_Main
begin

section \<open>Radioactive decay fits: the scripts as functions\<close>

text \<open>
  The repository is a handful of Python scripts. Three places fit an exponential decay to
  a count series with \<^verbatim>\<open>scipy.optimize.curve_fit\<close>:
  \<^item> the main loop of \<^verbatim>\<open>final_fit.py\<close> (lines 40-169), one CSV file per channel, a single or a
    double exponential per channel;
  \<^item> the second half of \<^verbatim>\<open>final_fit.py\<close> (lines 174-288, headed \<^verbatim>\<open>initial fits.py\<close>), four
    channels of one CSV file, single exponential;
  \<^item> \<^verbatim>\<open>Radioactive_Code.py\<close>, four sources of one CSV file, single exponential.

  Numbers are NumPy \<^verbatim>\<open>float64\<close> values in the scripts and \<^typ>\<open>real\<close> numbers here: rounding,
  infinities and NaN are outside the model, with one exception: the abundances of the
  double fit (lines 128-130 of \<^verbatim>\<open>final_fit.py\<close>) are computed with the rounding of binary64,
  since what is said of them is said of the computed values. Where NumPy divides by zero
  it returns \<^verbatim>\<open>inf\<close> or \<^verbatim>\<open>nan\<close> with a warning, where HOL returns 0: every statement below
  that depends on a quotient carries the hypothesis that its denominator is not zero.
  A one-dimensional array is a list, a matrix a list of rows.
  CSV reading, printing and plotting are reduced to the outcome recorded per channel.
\<close>

subsection \<open>Exceptions\<close>

text \<open>The exceptions the fitting code can meet. \<^verbatim>\<open>str(e)\<close> is the message, and for a
  \<^verbatim>\<open>KeyError\<close> the key, here a number, in decimal.\<close>

datatype py_exception =
    ValueError string
  | RuntimeError string
  | IndexError string
  | KeyError nat

fun str_nat :: "nat \<Rightarrow> string" where
  "str_nat n =
     (if n < 10 then [char_of (48 + n)]
      else str_nat (n div 10) @ [char_of (48 + n mod 10)])"

declare str_nat.simps [simp del]

fun str_exc :: "py_exception \<Rightarrow> string" where
  "str_exc (ValueError m) = m"
| "str_exc (RuntimeError m) = m"
| "str_exc (IndexError m) = m"
| "str_exc (KeyError k) = str_nat k"

text \<open>Sequencing of statements that may raise: the first exception ends the block.\<close>

fun and_then :: "py_exception + 'a \<Rightarrow> ('a \<Rightarrow> py_exception + 'b) \<Rightarrow> py_exception + 'b" where
  "and_then (Inl e) k = Inl e"
| "and_then (Inr v) k = k v"

subsection \<open>Builtins and NumPy operations the scripts use\<close>

text \<open>Python's \<^verbatim>\<open>max(y)\<close> and \<^verbatim>\<open>min(y)\<close> iterate over the array; on an empty one they raise
  a \<^verbatim>\<open>ValueError\<close>. The wording of its message is that of Python 3.11 and may differ in
  other versions of the interpreter.\<close>

fun py_max :: "real list \<Rightarrow> py_exception + real" where
  "py_max [] = Inl (ValueError ''max() arg is an empty sequence'')"
| "py_max (x # xs) = Inr (fold max xs x)"

fun py_min :: "real list \<Rightarrow> py_exception + real" where
  "py_min [] = Inl (ValueError ''min() arg is an empty sequence'')"
| "py_min (x # xs) = Inr (fold min xs x)"

text \<open>The array methods \<^verbatim>\<open>t.max()\<close> and \<^verbatim>\<open>t.min()\<close>.\<close>

fun np_max :: "real list \<Rightarrow> py_exception + real" where
  "np_max [] = Inl (ValueError
     ''zero-size array to reduction operation maximum which has no identity'')"
| "np_max (x # xs) = Inr (fold max xs x)"

fun np_min :: "real list \<Rightarrow> py_exception + real" where
  "np_min [] = Inl (ValueError
     ''zero-size array to reduction operation minimum which has no identity'')"
| "np_min (x # xs) = Inr (fold min xs x)"

text \<open>\<^verbatim>\<open>np.clip(y, a_min, None)\<close>: every entry below \<^verbatim>\<open>a_min\<close> is replaced by it.\<close>

definition np_clip :: "real list \<Rightarrow> real \<Rightarrow> real list" where
  "np_clip y a_min = map (\<lambda>v. if v < a_min then a_min else v) y"

definition np_sqrt :: "real list \<Rightarrow> real list" where
  "np_sqrt a = map sqrt a"

text \<open>\<^verbatim>\<open>np.diag(pcov)\<close> of a matrix: its main diagonal, as long as rows and columns last.\<close>

fun np_diag :: "real list list \<Rightarrow> real list" where
  "np_diag [] = []"
| "np_diag ([] # rs) = []"
| "np_diag ((x # xs) # rs) = x # np_diag (map tl rs)"

text \<open>\<^verbatim>\<open>perr[i]\<close> for a non-negative literal index.\<close>

definition item :: "real list \<Rightarrow> nat \<Rightarrow> py_exception + real" where
  "item a i = (if i < length a then Inr (a ! i)
     else Inl (IndexError ''index out of bounds''))"

text \<open>\<^verbatim>\<open>np.array(time_list) / 1000.0\<close>: milliseconds to seconds.\<close>

definition ms_to_s :: "real list \<Rightarrow> real list" where
  "ms_to_s time_list = map (\<lambda>v. v / 1000) time_list"

text \<open>\<^verbatim>\<open>np.sqrt(np.mean((y - yfit)**2))\<close>; the two arrays have one length (both come from the
  rows of one file).\<close>

definition rmse_of :: "real list \<Rightarrow> real list \<Rightarrow> real" where
  "rmse_of y yfit =
     sqrt (sum_list (map2 (\<lambda>a b. (a - b)\<^sup>2) y yfit) / real (length y))"

subsection \<open>Constants and models\<close>

definition LN2 :: real where
  "LN2 = ln 2"

text \<open>\<^verbatim>\<open>final_fit.py\<close>, lines 26-31.\<close>

definition model_single :: "real \<Rightarrow> real \<Rightarrow> real \<Rightarrow> real \<Rightarrow> real" where
  "model_single t A tau c = A * exp (- t / tau) + c"

definition model_double :: "real \<Rightarrow> real \<Rightarrow> real \<Rightarrow> real \<Rightarrow> real \<Rightarrow> real \<Rightarrow> real" where
  "model_double t A1 tau1 A2 tau2 c = A1 * exp (- t / tau1) + A2 * exp (- t / tau2) + c"

text \<open>\<^verbatim>\<open>model\<close> of \<^verbatim>\<open>Radioactive_Code.py\<close> (line 24) and of the second half of
  \<^verbatim>\<open>final_fit.py\<close> (line 212).\<close>

definition model :: "real \<Rightarrow> real \<Rightarrow> real \<Rightarrow> real \<Rightarrow> real" where
  "model x N0 tau c = N0 * exp (- x / tau) + c"

subsection \<open>Rounding to binary64\<close>

text \<open>
  An operation on \<^verbatim>\<open>float64\<close> values returns the binary64 number nearest to the exact
  result, a tie going to the even mantissa. \<open>fl x\<close> is that number: \<open>x\<close> is scaled by a power
  of two so that it lies between \<open>2 ^ 52\<close> and \<open>2 ^ 53\<close>, rounded to an integer, and scaled
  back. This is what binary64 does whenever the exact result is zero or of normal
  magnitude (\<open>normal64\<close>); overflow to \<^verbatim>\<open>inf\<close> and the coarser grid of subnormal numbers are
  outside the model.
\<close>

definition round_half_even :: "real \<Rightarrow> int" where
  "round_half_even z =
     (let f = \<lfloor>z\<rfloor>; d = z - of_int f in
      if d < 1 / 2 then f
      else if 1 / 2 < d then f + 1
      else if even f then f else f + 1)"

definition pow2 :: "int \<Rightarrow> real" where
  "pow2 e = (if 0 \<le> e then 2 ^ nat e else 1 / 2 ^ nat (- e))"

definition fl :: "real \<Rightarrow> real" where
  "fl x =
     (if x = 0 then 0
      else (let e = \<lfloor>log 2 \<bar>x\<bar>\<rfloor> - 52
            in of_int (round_half_even (x / pow2 e)) * pow2 e))"

definition normal64 :: "real \<Rightarrow> bool" where
  "normal64 x =
     (x = 0 \<or> (pow2 (- 1022) \<le> \<bar>x\<bar> \<and> \<bar>x\<bar> \<le> (2 - pow2 (- 52)) * pow2 1023))"

text \<open>An amplitude of ordinary magnitude: zero, or between \<open>2 ^ -500\<close> and \<open>2 ^ 500\<close>. With
  such amplitudes every operation of lines 128-130 has a result of normal magnitude
  (lemma \<open>abundance_steps_normal\<close> below).\<close>

definition ordinary :: "real \<Rightarrow> bool" where
  "ordinary a = (a = 0 \<or> (pow2 (- 500) \<le> a \<and> a \<le> pow2 500))"

subsection \<open>Weights\<close>

text \<open>\<^verbatim>\<open>sigma = np.sqrt(np.clip(y, 1, None))\<close>, the same line at all three places.\<close>

definition sigma_of :: "real list \<Rightarrow> real list" where
  "sigma_of y = np_sqrt (np_clip y 1)"

subsection \<open>The solver\<close>

text \<open>
  \<^verbatim>\<open>curve_fit\<close> is SciPy's, not this repository's: it is a parameter \<open>cf\<close> of everything below.
  A call \<^verbatim>\<open>curve_fit(f, xdata, ydata, p0=, sigma=, absolute_sigma=, bounds=)\<close> returns the pair
  \<^verbatim>\<open>(popt, pcov)\<close> or raises. A bound is a number, \<^verbatim>\<open>-np.inf\<close> or \<^verbatim>\<open>np.inf\<close>.
\<close>

datatype bound = NegInf | Fin real | PosInf

type_synonym bounds = "bound list \<times> bound list"

type_synonym curve_fit =
  "(real \<Rightarrow> real list \<Rightarrow> real) \<Rightarrow> real list \<Rightarrow> real list \<Rightarrow> real list \<Rightarrow> real list \<Rightarrow> bool
     \<Rightarrow> bounds \<Rightarrow> py_exception + (real list \<times> real list list)"

text \<open>The model functions as the solver calls them, \<^verbatim>\<open>f(x, *params)\<close>, with as many
  parameters as \<^verbatim>\<open>p0\<close> has.\<close>

definition model_single_args :: "real \<Rightarrow> real list \<Rightarrow> real" where
  "model_single_args t p = model_single t (p ! 0) (p ! 1) (p ! 2)"

definition model_double_args :: "real \<Rightarrow> real list \<Rightarrow> real" where
  "model_double_args t p = model_double t (p ! 0) (p ! 1) (p ! 2) (p ! 3) (p ! 4)"

definition model_args :: "real \<Rightarrow> real list \<Rightarrow> real" where
  "model_args x p = model x (p ! 0) (p ! 1) (p ! 2)"

text \<open>Unpacking an array into three or five names, as in \<^verbatim>\<open>A, tau, c = popt\<close>, raises
  when the lengths differ (the message is shortened: Python also prints the lengths).\<close>

definition unpack_error :: "nat \<Rightarrow> nat \<Rightarrow> py_exception" where
  "unpack_error expected got =
     (if got < expected then ValueError ''not enough values to unpack''
      else ValueError ''too many values to unpack'')"

fun unpack3 :: "real list \<Rightarrow> py_exception + (real \<times> real \<times> real)" where
  "unpack3 [a, b, c] = Inr (a, b, c)"
| "unpack3 xs = Inl (unpack_error 3 (length xs))"

fun unpack5 :: "real list \<Rightarrow> py_exception + (real \<times> real \<times> real \<times> real \<times> real)" where
  "unpack5 [a, b, c, d, e] = Inr (a, b, c, d, e)"
| "unpack5 xs = Inl (unpack_error 5 (length xs))"

subsection \<open>The main loop of \<^verbatim>\<open>final_fit.py\<close>\<close>

datatype fit_type = Single | Double

text \<open>\<^verbatim>\<open>FIT_TYPES\<close>, lines 9-14.\<close>

definition FIT_TYPES :: "nat \<rightharpoonup> fit_type" where
  "FIT_TYPES = [1 \<mapsto> Single, 2 \<mapsto> Single, 3 \<mapsto> Double, 4 \<mapsto> Double]"

text \<open>What the single and the double branch compute (lines 91-97 and 117-130).\<close>

record single_fit =
  sf_A :: real
  sf_tau :: real
  sf_c :: real
  sf_tau_err :: real
  sf_t_half :: real
  sf_t_half_err :: real

record double_fit =
  df_A1 :: real
  df_tau1 :: real
  df_A2 :: real
  df_tau2 :: real
  df_c_val :: real
  df_perr :: "real list"
  df_t1_half :: real
  df_t1_half_err :: real
  df_t2_half :: real
  df_t2_half_err :: real
  df_total_amp :: real
  df_abund1 :: real
  df_abund2 :: real

datatype fit_values = SingleV single_fit | DoubleV double_fit

record channel_fit =
  cf_values :: fit_values
  cf_yfit :: "real list"
  cf_rmse :: real

text \<open>Lines 80-82: \<^verbatim>\<open>amp_span\<close>, \<^verbatim>\<open>c_guess\<close> and \<^verbatim>\<open>duration\<close>, in this order.\<close>

definition guesses :: "real list \<Rightarrow> real list \<Rightarrow> py_exception + (real \<times> real \<times> real)" where
  "guesses t y =
     and_then (py_max y) (\<lambda>mx.
     and_then (py_min y) (\<lambda>mn.
     and_then (py_min y) (\<lambda>c_guess.
     and_then (np_max t) (\<lambda>tmx.
     and_then (np_min t) (\<lambda>tmn.
       Inr (mx - mn, c_guess, tmx - tmn))))))"

text \<open>Lines 86-87 and 112-113.\<close>

definition p0_single :: "real \<Rightarrow> real \<Rightarrow> real \<Rightarrow> real list" where
  "p0_single amp_span duration c_guess = [amp_span, duration / 3, c_guess]"

definition bounds_single :: bounds where
  "bounds_single = ([Fin 0, Fin 0, NegInf], [PosInf, PosInf, PosInf])"

definition p0_double :: "real \<Rightarrow> real \<Rightarrow> real \<Rightarrow> real list" where
  "p0_double amp_span duration c_guess =
     [amp_span / 2, duration / 10, amp_span / 2, duration / 2, c_guess]"

definition bounds_double :: bounds where
  "bounds_double =
     ([Fin 0, Fin 0, Fin 0, Fin 0, NegInf], [PosInf, PosInf, PosInf, PosInf, PosInf])"

text \<open>Lines 86-99: the single fit. The result is the fitted values and \<^verbatim>\<open>yfit\<close>.\<close>

definition single_branch ::
  "curve_fit \<Rightarrow> real list \<Rightarrow> real list \<Rightarrow> real list \<Rightarrow> real \<Rightarrow> real \<Rightarrow> real
     \<Rightarrow> py_exception + (fit_values \<times> real list)" where
  "single_branch cf t y sigma amp_span duration c_guess =
     and_then (cf model_single_args t y (p0_single amp_span duration c_guess) sigma True
                 bounds_single) (\<lambda>(popt, pcov).
     and_then (unpack3 popt) (\<lambda>(A, tau, c).
       (let perr = np_sqrt (np_diag pcov) in
        and_then (item perr 1) (\<lambda>tau_err.
          Inr (SingleV \<lparr>sf_A = A, sf_tau = tau, sf_c = c, sf_tau_err = tau_err,
                 sf_t_half = tau * LN2, sf_t_half_err = tau_err * LN2\<rparr>,
               map (\<lambda>ti. model_single ti A tau c) t)))))"

text \<open>Lines 112-132: the double fit. The sum of the amplitudes, the two quotients and the
  two products of lines 128-130 are rounded as \<^verbatim>\<open>float64\<close> operations are.\<close>

definition double_branch ::
  "curve_fit \<Rightarrow> real list \<Rightarrow> real list \<Rightarrow> real list \<Rightarrow> real \<Rightarrow> real \<Rightarrow> real
     \<Rightarrow> py_exception + (fit_values \<times> real list)" where
  "double_branch cf t y sigma amp_span duration c_guess =
     and_then (cf model_double_args t y (p0_double amp_span duration c_guess) sigma True
                 bounds_double) (\<lambda>(popt, pcov).
     and_then (unpack5 popt) (\<lambda>(A1, tau1, A2, tau2, c_val).
       (let perr = np_sqrt (np_diag pcov) in
        and_then (item perr 1) (\<lambda>perr1.
        and_then (item perr 3) (\<lambda>perr3.
          (let total_amp = fl (A1 + A2) in
           Inr (DoubleV \<lparr>df_A1 = A1, df_tau1 = tau1, df_A2 = A2, df_tau2 = tau2,
                  df_c_val = c_val, df_perr = perr,
                  df_t1_half = tau1 * LN2, df_t1_half_err = perr1 * LN2,
                  df_t2_half = tau2 * LN2, df_t2_half_err = perr3 * LN2,
                  df_total_amp = total_amp,
                  df_abund1 = fl (fl (A1 / total_amp) * 100),
                  df_abund2 = fl (fl (A2 / total_amp) * 100)\<rparr>,
                map (\<lambda>ti. model_double ti A1 tau1 A2 tau2 c_val) t)))))))"

text \<open>Lines 79-149: the body of the \<^verbatim>\<open>try\<close> statement, up to the RMSE.\<close>

definition try_body ::
  "curve_fit \<Rightarrow> fit_type \<Rightarrow> real list \<Rightarrow> real list \<Rightarrow> real list
     \<Rightarrow> py_exception + channel_fit" where
  "try_body cf ft t y sigma =
     and_then (guesses t y) (\<lambda>(amp_span, c_guess, duration).
     and_then (case ft of
                 Single \<Rightarrow> single_branch cf t y sigma amp_span duration c_guess
               | Double \<Rightarrow> double_branch cf t y sigma amp_span duration c_guess)
       (\<lambda>(vals, yfit).
          Inr \<lparr>cf_values = vals, cf_yfit = yfit, cf_rmse = rmse_of y yfit\<rparr>))"

text \<open>
  What the loop does with one file (lines 50-164): a missing file and a file that cannot
  be read are reported and skipped; otherwise the rows are fitted, and any exception of
  the \<^verbatim>\<open>try\<close> body is printed as \<^verbatim>\<open>Fit Failed: <message>\<close> and the raw data plotted.
\<close>

datatype file_input =
    Missing
  | Unreadable string
  | Rows "real list" "real list"

datatype 'r outcome =
    FileNotFound
  | ReadError string
  | Fitted 'r
  | FitFailed string "real list" "real list"

definition process_file :: "curve_fit \<Rightarrow> fit_type \<Rightarrow> file_input \<Rightarrow> channel_fit outcome" where
  "process_file cf ft inp =
     (case inp of
        Missing \<Rightarrow> FileNotFound
      | Unreadable msg \<Rightarrow> ReadError msg
      | Rows time_list signal_list \<Rightarrow>
          (let t = ms_to_s time_list; y = signal_list; sigma = sigma_of y in
           case try_body cf ft t y sigma of
             Inr r \<Rightarrow> Fitted r
           | Inl e \<Rightarrow> FitFailed (str_exc e) t y))"

text \<open>A \<^verbatim>\<open>for\<close> loop whose body may raise: the first exception ends the script.\<close>

fun for_each :: "('a \<Rightarrow> py_exception + 'b) \<Rightarrow> 'a list \<Rightarrow> py_exception + 'b list" where
  "for_each body [] = Inr []"
| "for_each body (x # xs) =
     and_then (body x) (\<lambda>r. and_then (for_each body xs) (\<lambda>rs. Inr (r # rs)))"

text \<open>Lines 40-169, \<^verbatim>\<open>for i in range(1, 5)\<close>; \<open>files i\<close> is what file \<open>i\<close> holds.\<close>

definition main_loop ::
  "curve_fit \<Rightarrow> (nat \<Rightarrow> file_input) \<Rightarrow> py_exception + channel_fit outcome list" where
  "main_loop cf files =
     for_each (\<lambda>i. case FIT_TYPES i of
                      None \<Rightarrow> Inl (KeyError i)
                    | Some fit_type \<Rightarrow> Inr (process_file cf fit_type (files i)))
       [1, 2, 3, 4]"

subsection \<open>The second half of \<^verbatim>\<open>final_fit.py\<close> and \<^verbatim>\<open>Radioactive_Code.py\<close>\<close>

text \<open>What one fit prints there: the three parameters, their errors, and the RMSE of
  \<^verbatim>\<open>yfit\<close>.\<close>

record model_fit =
  mf_N0 :: real
  mf_tau :: real
  mf_c :: real
  mf_N0_err :: real
  mf_tau_err :: real
  mf_c_err :: real
  mf_yfit :: "real list"
  mf_rmse :: real

text \<open>
  The call of \<^verbatim>\<open>curve_fit\<close> and the lines after it, up to the RMSE: lines 236-251 of
  \<^verbatim>\<open>final_fit.py\<close> with \<^verbatim>\<open>absolute_sigma=True\<close>, lines 40-55 of \<^verbatim>\<open>Radioactive_Code.py\<close> with
  \<^verbatim>\<open>absolute_sigma=False\<close>. The two differ in that flag only, which is the argument
  \<open>absolute_sigma\<close> here.
\<close>

definition fit_model ::
  "curve_fit \<Rightarrow> bool \<Rightarrow> real list \<Rightarrow> real list \<Rightarrow> real list \<Rightarrow> real list
     \<Rightarrow> py_exception + model_fit" where
  "fit_model cf absolute_sigma t y p0 sigma =
     and_then (cf model_args t y p0 sigma absolute_sigma
                 ([Fin 0, Fin 0, NegInf], [PosInf, PosInf, PosInf])) (\<lambda>(popt, pcov).
       (let perr = np_sqrt (np_diag pcov) in
        and_then (unpack3 popt) (\<lambda>(N0, tau, c).
        and_then (unpack3 perr) (\<lambda>(N0_err, tau_err, c_err).
          (let yfit = map (\<lambda>ti. model ti N0 tau c) t in
           Inr \<lparr>mf_N0 = N0, mf_tau = tau, mf_c = c,
                mf_N0_err = N0_err, mf_tau_err = tau_err, mf_c_err = c_err,
                mf_yfit = yfit, mf_rmse = rmse_of y yfit\<rparr>)))))"

text \<open>\<^verbatim>\<open>final_fit.py\<close>, lines 224-228: the guesses, outside the \<^verbatim>\<open>try\<close> statement, with the
  fallback of the decay time to \<^verbatim>\<open>1.0\<close>.\<close>

definition initial_p0 :: "real list \<Rightarrow> real list \<Rightarrow> py_exception + real list" where
  "initial_p0 t y =
     and_then (py_max y) (\<lambda>mx.
     and_then (py_min y) (\<lambda>mn.
     and_then (py_min y) (\<lambda>c_guess.
     and_then (np_max t) (\<lambda>tmx.
     and_then (np_min t) (\<lambda>tmn.
       (let N0_guess = mx - mn;
            tau_guess = (if tmx - tmn > 0 then (tmx - tmn) / 3 else 1)
        in Inr [N0_guess, tau_guess, c_guess]))))))"

text \<open>Lines 220-285: one channel. An exception of the fit is printed as
  \<^verbatim>\<open>Fit failed for Source i: <message>\<close> and the raw data plotted; one of the guesses is
  not caught.\<close>

definition initial_channel ::
  "curve_fit \<Rightarrow> real list \<Rightarrow> real list \<Rightarrow> py_exception + model_fit outcome" where
  "initial_channel cf t y =
     and_then (initial_p0 t y) (\<lambda>p0.
       (let sigma = sigma_of y in
        case fit_model cf True t y p0 sigma of
          Inr r \<Rightarrow> Inr (Fitted r)
        | Inl e \<Rightarrow> Inr (FitFailed (str_exc e) t y)))"

definition initial_fits ::
  "curve_fit \<Rightarrow> real list \<Rightarrow> real list list \<Rightarrow> py_exception + model_fit outcome list" where
  "initial_fits cf raw_time sources =
     (let t = ms_to_s raw_time in for_each (initial_channel cf t) sources)"

text \<open>\<^verbatim>\<open>Radioactive_Code.py\<close>, lines 32-35: the guesses (the decay time before the
  baseline), with no fallback.\<close>

definition radioactive_p0 :: "real list \<Rightarrow> real list \<Rightarrow> py_exception + real list" where
  "radioactive_p0 t y =
     and_then (py_max y) (\<lambda>mx.
     and_then (py_min y) (\<lambda>mn.
     and_then (np_max t) (\<lambda>tmx.
     and_then (np_min t) (\<lambda>tmn.
     and_then (py_min y) (\<lambda>c_guess.
       (let N0_guess = mx - mn;
            tau_guess = (tmx - tmn) / 3
        in Inr [N0_guess, tau_guess, c_guess]))))))"

text \<open>Lines 30-80: one source. Nothing is caught.\<close>

definition radioactive_channel ::
  "curve_fit \<Rightarrow> real list \<Rightarrow> real list \<Rightarrow> py_exception + model_fit" where
  "radioactive_channel cf t y =
     and_then (radioactive_p0 t y) (\<lambda>p0.
       (let sigma = sigma_of y in fit_model cf False t y p0 sigma))"

definition radioactive_code ::
  "curve_fit \<Rightarrow> real list \<Rightarrow> real list list \<Rightarrow> py_exception + model_fit list" where
  "radioactive_code cf time sources =
     (let t = ms_to_s time in for_each (radioactive_channel cf t) sources)"

subsection \<open>What is assumed of the solver\<close>

text \<open>A parameter vector lies within the bounds when every entry is at least its lower
  and at most its upper bound.\<close>

fun lower_ok :: "bound \<Rightarrow> real \<Rightarrow> bool" where
  "lower_ok NegInf v = True"
| "lower_ok (Fin l) v = (l \<le> v)"
| "lower_ok PosInf v = False"

fun upper_ok :: "bound \<Rightarrow> real \<Rightarrow> bool" where
  "upper_ok PosInf v = True"
| "upper_ok (Fin u) v = (v \<le> u)"
| "upper_ok NegInf v = False"

definition in_bounds :: "bounds \<Rightarrow> real list \<Rightarrow> bool" where
  "in_bounds b p = (list_all2 lower_ok (fst b) p \<and> list_all2 upper_ok (snd b) p)"

text \<open>The solver keeps to its box: the estimate it returns lies within the bounds it was
  given.\<close>

definition honours_bounds :: "curve_fit \<Rightarrow> bool" where
  "honours_bounds cf =
     (\<forall>f x y p0 sg ab b popt pcov.
        cf f x y p0 sg ab b = Inr (popt, pcov) \<longrightarrow> in_bounds b popt)"

text \<open>
  The reduced chi-square of an estimate: the weighted residuals squared and summed,
  divided by the number of samples less the number of parameters.
\<close>

definition chisq ::
  "(real \<Rightarrow> real list \<Rightarrow> real) \<Rightarrow> real list \<Rightarrow> real list \<Rightarrow> real list \<Rightarrow> real list \<Rightarrow> real" where
  "chisq f x y sg p =
     sum_list (map (\<lambda>(xi, yi, si). ((f xi p - yi) / si)\<^sup>2) (zip x (zip y sg)))"

definition reduced_chisq ::
  "(real \<Rightarrow> real list \<Rightarrow> real) \<Rightarrow> real list \<Rightarrow> real list \<Rightarrow> real list \<Rightarrow> real list \<Rightarrow> real" where
  "reduced_chisq f x y sg p = chisq f x y sg p / (real (length y) - real (length p))"

definition scale_cov :: "real \<Rightarrow> real list list \<Rightarrow> real list list" where
  "scale_cov s pcov = map (map (\<lambda>v. s * v)) pcov"

text \<open>
  The meaning of \<^verbatim>\<open>absolute_sigma\<close>, as the comment at line 44 of \<^verbatim>\<open>Radioactive_Code.py\<close> has
  it (\<^verbatim>\<open>set True if sigma are absolute, else scales cov by chi2_red\<close>): with more samples
  than parameters and positive weights, the call with \<^verbatim>\<open>False\<close> returns what the call with
  \<^verbatim>\<open>True\<close> returns, the covariance multiplied by the reduced chi-square of the estimate.
\<close>

definition rescales_covariance :: "curve_fit \<Rightarrow> bool" where
  "rescales_covariance cf =
     (\<forall>f x y p0 sg b. length p0 < length y \<and> list_all (\<lambda>s. 0 < s) sg \<longrightarrow>
        cf f x y p0 sg False b =
          (case cf f x y p0 sg True b of
             Inl e \<Rightarrow> Inl e
           | Inr (popt, pcov) \<Rightarrow> Inr (popt, scale_cov (reduced_chisq f x y sg popt) pcov)))"

subsection \<open>A stand-in solver for concrete runs\<close>

text \<open>
  To run the scripts on concrete data a solver is needed. This one is not a least-squares
  method: it raises on the count series listed in \<open>failing\<close>; otherwise it returns the
  estimate \<open>est\<close> when that has the length of \<open>p0\<close> and lies within the bounds, with
  \<open>cov\<close> as absolute covariance, rescaled as \<^const>\<open>rescales_covariance\<close> says.
  It stands for SciPy's solver only where a statement needs some solver with these
  properties to exist.
\<close>

definition stand_in :: "real list list \<Rightarrow> real list \<Rightarrow> real list list \<Rightarrow> curve_fit" where
  "stand_in failing est cov f x y p0 sg ab b =
     (if y \<in> set failing then
        Inl (RuntimeError ''Optimal parameters not found'')
      else if length est = length p0 \<and> in_bounds b est then
        Inr (est,
             if ab \<or> length y \<le> length p0 then cov
             else scale_cov (reduced_chisq f x y sg est) cov)
      else Inl (ValueError ''x0 is infeasible''))"

section \<open>Properties\<close>

subsection \<open>The models\<close>

text \<open>
  Claim C10. The single-exponential model is nested in the double-exponential one: with
  the second amplitude 0 and both decay times positive,
  \<open>model_double t A1 tau1 0 tau2 c = model_single t A1 tau1 c\<close> for every \<open>t\<close>.
\<close>

theorem model_double_nests_single:
  assumes "0 < tau1" and "0 < tau2"
  shows "model_double t a1 tau1 0 tau2 c = model_single t a1 tau1 c"
  by (simp add: model_double_def model_single_def)

theorem model_double_nests_single_witness:
  "(0::real) < 2 \<and> (0::real) < 5 \<and> model_double 1 3 2 0 5 7 = model_single 1 3 2 7"
  using model_double_nests_single [of 2 5 1 3 7] by simp

subsection \<open>Weights\<close>

lemma sigma_of_nth:
  "i < length y \<Longrightarrow> sigma_of y ! i = sqrt (max (y ! i) 1)"
  by (simp add: sigma_of_def np_sqrt_def np_clip_def max_def)

text \<open>
  Claim C2. The weight of a sample with count \<open>c\<close> is \<open>sqrt (max c 1)\<close>, so it is at least 1,
  and the weight does not decrease when the count grows: of two series that differ at
  position \<open>i\<close> only, the second having the larger count there, the second has the larger or
  equal weight there. This holds for every count, so for every count \<open>c \<ge> 0\<close>.
\<close>

theorem sigma_of_floor_monotone:
  assumes "i < length y"
  shows "sigma_of y ! i = sqrt (max (y ! i) 1) \<and> 1 \<le> sigma_of y ! i \<and>
         (\<forall>c2. y ! i \<le> c2 \<longrightarrow> sigma_of y ! i \<le> sigma_of (y[i := c2]) ! i)"
proof (intro conjI allI impI)
  show w: "sigma_of y ! i = sqrt (max (y ! i) 1)"
    using assms by (rule sigma_of_nth)
  have "sqrt 1 \<le> sqrt (max (y ! i) 1)"
    by simp
  then show "1 \<le> sigma_of y ! i"
    using w by simp
  fix c2
  assume le: "y ! i \<le> c2"
  have "sigma_of (y[i := c2]) ! i = sqrt (max c2 1)"
    using assms by (simp add: sigma_of_nth)
  moreover have "max (y ! i) 1 \<le> max c2 1"
    using le by (simp add: max_def)
  ultimately show "sigma_of y ! i \<le> sigma_of (y[i := c2]) ! i"
    using w by simp
qed

theorem sigma_of_floor_monotone_witness:
  "(1::nat) < length [0, 9 :: real] \<and> sigma_of [0, 9] ! 1 = 3 \<and> 1 \<le> sigma_of [0, 9] ! 1 \<and>
   sigma_of [0, 9] ! 1 \<le> sigma_of ([0, 9][1 := 16]) ! 1"
proof -
  have h: "(1::nat) < length [0, 9 :: real]" by simp
  have le: "[0, 9 :: real] ! 1 \<le> 16" by simp
  from sigma_of_floor_monotone [OF h]
  have "sigma_of [0, 9] ! 1 = sqrt (max ([0, 9] ! 1) 1)"
    and "1 \<le> sigma_of [0, 9] ! 1"
    and "sigma_of [0, 9] ! 1 \<le> sigma_of ([0, 9][1 := 16]) ! 1"
    using le by blast+
  then show ?thesis by simp
qed

subsection \<open>Reading a result back\<close>

text \<open>A block of statements ends without an exception exactly when each statement does.\<close>

lemma and_then_Inr:
  "and_then m k = Inr r \<longleftrightarrow> (\<exists>v. m = Inr v \<and> k v = Inr r)"
  by (cases m) simp_all

lemma unpack3_Inr: "unpack3 xs = Inr (a, b, c) \<longleftrightarrow> xs = [a, b, c]"
  by (induction xs rule: unpack3.induct) auto

lemma unpack5_Inr: "unpack5 xs = Inr (a, b, c, d, e) \<longleftrightarrow> xs = [a, b, c, d, e]"
  by (induction xs rule: unpack5.induct) auto

lemma item_Inr: "item a i = Inr v \<longleftrightarrow> i < length a \<and> a ! i = v"
  by (simp add: item_def)

text \<open>What a successful branch has computed, in terms of what the solver returned.\<close>

lemma single_branch_result:
  assumes "single_branch cf t y sigma a d c0 = Inr (vals, yf)"
  shows "\<exists>A tau c pcov tau_err.
           cf model_single_args t y (p0_single a d c0) sigma True bounds_single
             = Inr ([A, tau, c], pcov) \<and>
           item (np_sqrt (np_diag pcov)) 1 = Inr tau_err \<and>
           vals = SingleV \<lparr>sf_A = A, sf_tau = tau, sf_c = c, sf_tau_err = tau_err,
                     sf_t_half = tau * LN2, sf_t_half_err = tau_err * LN2\<rparr> \<and>
           yf = map (\<lambda>ti. model_single ti A tau c) t"
  using assms unfolding single_branch_def
  by (auto simp: Let_def and_then_Inr unpack3_Inr)

lemma double_branch_result:
  assumes "double_branch cf t y sigma a d c0 = Inr (vals, yf)"
  shows "\<exists>A1 tau1 A2 tau2 c_val pcov perr1 perr3.
           cf model_double_args t y (p0_double a d c0) sigma True bounds_double
             = Inr ([A1, tau1, A2, tau2, c_val], pcov) \<and>
           item (np_sqrt (np_diag pcov)) 1 = Inr perr1 \<and>
           item (np_sqrt (np_diag pcov)) 3 = Inr perr3 \<and>
           vals = DoubleV \<lparr>df_A1 = A1, df_tau1 = tau1, df_A2 = A2, df_tau2 = tau2,
                      df_c_val = c_val, df_perr = np_sqrt (np_diag pcov),
                      df_t1_half = tau1 * LN2, df_t1_half_err = perr1 * LN2,
                      df_t2_half = tau2 * LN2, df_t2_half_err = perr3 * LN2,
                      df_total_amp = fl (A1 + A2),
                      df_abund1 = fl (fl (A1 / fl (A1 + A2)) * 100),
                      df_abund2 = fl (fl (A2 / fl (A1 + A2)) * 100)\<rparr> \<and>
           yf = map (\<lambda>ti. model_double ti A1 tau1 A2 tau2 c_val) t"
  using assms unfolding double_branch_def
  by (auto simp: Let_def and_then_Inr unpack5_Inr)

lemma try_body_result:
  assumes "try_body cf ft t y sigma = Inr r"
  shows "\<exists>a c0 d. guesses t y = Inr (a, c0, d) \<and>
           (case ft of
              Single \<Rightarrow> single_branch cf t y sigma a d c0
            | Double \<Rightarrow> double_branch cf t y sigma a d c0) = Inr (cf_values r, cf_yfit r)"
  using assms unfolding try_body_def
  by (auto simp: and_then_Inr)

lemma fit_model_result:
  assumes "fit_model cf ab t y p0 sigma = Inr m"
  shows "\<exists>pcov.
           cf model_args t y p0 sigma ab ([Fin 0, Fin 0, NegInf], [PosInf, PosInf, PosInf])
             = Inr ([mf_N0 m, mf_tau m, mf_c m], pcov) \<and>
           np_sqrt (np_diag pcov) = [mf_N0_err m, mf_tau_err m, mf_c_err m] \<and>
           mf_yfit m = map (\<lambda>ti. model ti (mf_N0 m) (mf_tau m) (mf_c m)) t \<and>
           mf_rmse m = rmse_of y (mf_yfit m)"
  using assms unfolding fit_model_def
  by (auto simp: Let_def and_then_Inr unpack3_Inr)

subsection \<open>Rounding\<close>

lemma pow2_powr: "pow2 e = 2 powr of_int e"
  by (simp add: pow2_def powr_real_of_int field_simps)

lemma pow2_pos: "0 < pow2 e"
  by (simp add: pow2_powr)

lemma pow2_add: "pow2 (a + b) = pow2 a * pow2 b"
  by (simp add: pow2_powr powr_add)

lemma round_half_even_error: "\<bar>of_int (round_half_even z) - z\<bar> \<le> 1 / 2"
  unfolding round_half_even_def Let_def
  by (auto simp: abs_if) linarith+

lemma floor_log2_eq:
  assumes "0 < x" and "pow2 k \<le> x" and "x < pow2 (k + 1)"
  shows "\<lfloor>log 2 x\<rfloor> = k"
proof (rule floor_unique)
  show "of_int k \<le> log 2 x"
    using assms by (simp add: le_log_iff pow2_powr)
  show "log 2 x < of_int k + 1"
    using assms by (simp add: log_less_iff pow2_powr)
qed

text \<open>How to compute \<open>fl x\<close> for a positive \<open>x\<close> with \<open>2 ^ k \<le> x < 2 ^ (k + 1)\<close>.\<close>

lemma fl_eval:
  assumes "0 < x" and "pow2 k \<le> x" and "x < pow2 (k + 1)"
  shows "fl x = of_int (round_half_even (x / pow2 (k - 52))) * pow2 (k - 52)"
  using floor_log2_eq [OF assms] assms(1) by (simp add: fl_def Let_def)

lemma pow2_floor_log_le:
  assumes "x \<noteq> 0"
  shows "pow2 \<lfloor>log 2 \<bar>x\<bar>\<rfloor> \<le> \<bar>x\<bar>"
proof -
  have "of_int \<lfloor>log 2 \<bar>x\<bar>\<rfloor> \<le> log 2 \<bar>x\<bar>" by simp
  moreover have "0 < \<bar>x\<bar>" using assms by simp
  ultimately have "2 powr of_int \<lfloor>log 2 \<bar>x\<bar>\<rfloor> \<le> \<bar>x\<bar>"
    by (subst (asm) le_log_iff) simp_all
  then show ?thesis
    by (simp only: pow2_powr)
qed

text \<open>The relative error of one rounding is at most \<open>2 ^ -53\<close>.\<close>

lemma fl_error: "\<bar>fl x - x\<bar> \<le> \<bar>x\<bar> / 2 ^ 53"
proof (cases "x = 0")
  case True
  then show ?thesis by (simp add: fl_def)
next
  case False
  define k where "k = \<lfloor>log 2 \<bar>x\<bar>\<rfloor>"
  define e where "e = k - 52"
  define z where "z = x / pow2 e"
  have x: "x = z * pow2 e"
    using pow2_pos [of e] by (simp add: z_def)
  have fl: "fl x = of_int (round_half_even z) * pow2 e"
    using False by (simp add: fl_def k_def e_def z_def Let_def)
  have "\<bar>fl x - x\<bar> = \<bar>of_int (round_half_even z) - z\<bar> * pow2 e"
  proof -
    have "fl x - x = (of_int (round_half_even z) - z) * pow2 e"
      by (simp add: fl left_diff_distrib) (simp add: x)
    then show ?thesis
      using pow2_pos [of e] by (simp add: abs_mult)
  qed
  also have "\<dots> \<le> (1 / 2) * pow2 e"
    using round_half_even_error [of z] pow2_pos [of e] by (intro mult_right_mono) simp_all
  also have "\<dots> = pow2 k / 2 ^ 53"
  proof -
    have "pow2 k = pow2 e * pow2 52"
      unfolding e_def by (simp add: pow2_add [symmetric])
    then show ?thesis by (simp add: pow2_def)
  qed
  also have "\<dots> \<le> \<bar>x\<bar> / 2 ^ 53"
    using pow2_floor_log_le [OF False] by (simp add: k_def divide_right_mono)
  finally show ?thesis .
qed

lemma fl_lower: "0 \<le> x \<Longrightarrow> x * (1 - 1 / 2 ^ 53) \<le> fl x"
proof -
  assume "0 \<le> x"
  then have "\<bar>fl x - x\<bar> \<le> x / 2 ^ 53" using fl_error [of x] by simp
  then have "x - x / 2 ^ 53 \<le> fl x" by linarith
  then show ?thesis by (simp add: algebra_simps)
qed

lemma fl_upper: "0 \<le> x \<Longrightarrow> fl x \<le> x * (1 + 1 / 2 ^ 53)"
proof -
  assume "0 \<le> x"
  then have "\<bar>fl x - x\<bar> \<le> x / 2 ^ 53" using fl_error [of x] by simp
  then have "fl x \<le> x + x / 2 ^ 53" by linarith
  then show ?thesis by (simp add: algebra_simps)
qed

lemma fl_nonneg: "0 \<le> x \<Longrightarrow> 0 \<le> fl x"
proof -
  assume x: "0 \<le> x"
  have "0 \<le> x * (1 - 1 / 2 ^ 53)" using x by simp
  also have "\<dots> \<le> fl x" using x by (rule fl_lower)
  finally show ?thesis .
qed

lemma fl_pos: "0 < x \<Longrightarrow> 0 < fl x"
proof -
  assume x: "0 < x"
  have "0 < x * (1 - 1 / 2 ^ 53)" using x by simp
  also have "\<dots> \<le> fl x" using x by (intro fl_lower) simp
  finally show ?thesis .
qed

text \<open>Some values: the first five are binary64 numbers and are not changed.\<close>

lemma fl_3: "fl 3 = 3"
  using fl_eval [of 3 1] by (simp add: round_half_even_def pow2_def)

lemma fl_4: "fl 4 = 4"
  using fl_eval [of 4 2] by (simp add: round_half_even_def pow2_def)

lemma fl_quarter: "fl (1 / 4) = 1 / 4"
  using fl_eval [of "1 / 4" "- 2"] by (simp add: round_half_even_def pow2_def)

lemma fl_three_quarters: "fl (3 / 4) = 3 / 4"
  using fl_eval [of "3 / 4" "- 1"] by (simp add: round_half_even_def pow2_def)

lemma fl_25: "fl 25 = 25"
  using fl_eval [of 25 4] by (simp add: round_half_even_def pow2_def)

lemma fl_75: "fl 75 = 75"
  using fl_eval [of 75 6] by (simp add: round_half_even_def pow2_def)

lemma fl_third: "fl (1 / 3) = 6004799503160661 / 2 ^ 54"
  using fl_eval [of "1 / 3" "-2"] by (simp add: round_half_even_def pow2_def)

lemma fl_two_thirds: "fl (2 / 3) = 6004799503160661 / 2 ^ 53"
  using fl_eval [of "2 / 3" "-1"] by (simp add: round_half_even_def pow2_def)

lemma fl_33: "fl (6004799503160661 / 2 ^ 54 * 100) = 4691249611844266 / 2 ^ 47"
  using fl_eval [of "6004799503160661 / 2 ^ 54 * 100" 5] by (simp add: round_half_even_def pow2_def)

lemma fl_66: "fl (6004799503160661 / 2 ^ 53 * 100) = 4691249611844266 / 2 ^ 46"
  using fl_eval [of "6004799503160661 / 2 ^ 53 * 100" 6] by (simp add: round_half_even_def pow2_def)

subsection \<open>The stand-in solver and some concrete runs\<close>

lemma stand_in_honours_bounds: "honours_bounds (stand_in failing est cov)"
  by (auto simp: honours_bounds_def stand_in_def split: if_splits)

lemma stand_in_rescales: "rescales_covariance (stand_in failing est cov)"
  by (auto simp: rescales_covariance_def stand_in_def)

lemma in_bounds_single: "in_bounds bounds_single [a, tau, c] = (0 \<le> a \<and> 0 \<le> tau)"
  by (simp add: in_bounds_def bounds_single_def)

lemma in_bounds_double:
  "in_bounds bounds_double [a1, tau1, a2, tau2, c] = (0 \<le> a1 \<and> 0 \<le> tau1 \<and> 0 \<le> a2 \<and> 0 \<le> tau2)"
  by (simp add: in_bounds_def bounds_double_def)

lemma run_single:
  "try_body (stand_in [] [0, 3, -1] [[1, 0, 0], [0, 4, 0], [0, 0, 9]]) Single
     (ms_to_s [0, 1000, 2000, 3000]) [9, 4, 4, 1] (sigma_of [9, 4, 4, 1]) =
   Inr \<lparr>cf_values = SingleV \<lparr>sf_A = 0, sf_tau = 3, sf_c = -1, sf_tau_err = 2,
                     sf_t_half = 3 * LN2, sf_t_half_err = 2 * LN2\<rparr>,
        cf_yfit = [-1, -1, -1, -1], cf_rmse = rmse_of [9, 4, 4, 1] [-1, -1, -1, -1]\<rparr>"
  by (simp add: try_body_def guesses_def ms_to_s_def single_branch_def stand_in_def
      p0_single_def in_bounds_single np_sqrt_def item_def model_single_def)

lemma run_double:
  "try_body (stand_in [] [1, 1, 3, 2, 0]
       [[1, 0, 0, 0, 0], [0, 4, 0, 0, 0], [0, 0, 1, 0, 0], [0, 0, 0, 9, 0], [0, 0, 0, 0, 1]])
     Double (ms_to_s [0, 1000, 2000, 3000]) [9, 4, 4, 1] (sigma_of [9, 4, 4, 1]) =
   Inr \<lparr>cf_values = DoubleV \<lparr>df_A1 = 1, df_tau1 = 1, df_A2 = 3, df_tau2 = 2,
                      df_c_val = 0, df_perr = [1, 2, 1, 3, 1],
                      df_t1_half = 1 * LN2, df_t1_half_err = 2 * LN2,
                      df_t2_half = 2 * LN2, df_t2_half_err = 3 * LN2,
                      df_total_amp = 4, df_abund1 = 25, df_abund2 = 75\<rparr>,
        cf_yfit = map (\<lambda>ti. model_double ti 1 1 3 2 0) [0, 1, 2, 3],
        cf_rmse = rmse_of [9, 4, 4, 1] (map (\<lambda>ti. model_double ti 1 1 3 2 0) [0, 1, 2, 3])\<rparr>"
  by (simp add: try_body_def guesses_def ms_to_s_def double_branch_def stand_in_def
      p0_double_def in_bounds_double np_sqrt_def item_def
      fl_4 fl_quarter fl_three_quarters fl_25 fl_75)

lemma run_double_1_2:
  "try_body (stand_in [] [1, 1, 2, 2, 0]
       [[1, 0, 0, 0, 0], [0, 4, 0, 0, 0], [0, 0, 1, 0, 0], [0, 0, 0, 9, 0], [0, 0, 0, 0, 1]])
     Double (ms_to_s [0, 1000, 2000, 3000]) [9, 4, 4, 1] (sigma_of [9, 4, 4, 1]) =
   Inr \<lparr>cf_values = DoubleV \<lparr>df_A1 = 1, df_tau1 = 1, df_A2 = 2, df_tau2 = 2,
                      df_c_val = 0, df_perr = [1, 2, 1, 3, 1],
                      df_t1_half = 1 * LN2, df_t1_half_err = 2 * LN2,
                      df_t2_half = 2 * LN2, df_t2_half_err = 3 * LN2,
                      df_total_amp = 3,
                      df_abund1 = 4691249611844266 / 2 ^ 47,
                      df_abund2 = 4691249611844266 / 2 ^ 46\<rparr>,
        cf_yfit = map (\<lambda>ti. model_double ti 1 1 2 2 0) [0, 1, 2, 3],
        cf_rmse = rmse_of [9, 4, 4, 1] (map (\<lambda>ti. model_double ti 1 1 2 2 0) [0, 1, 2, 3])\<rparr>"
proof -
  have a1: "fl (fl (1 / 3) * 100) = 4691249611844266 / 2 ^ 47"
    by (simp only: fl_third fl_33)
  have a2: "fl (fl (2 / 3) * 100) = 4691249611844266 / 2 ^ 46"
    by (simp only: fl_two_thirds fl_66)
  show ?thesis
    by (simp add: try_body_def guesses_def ms_to_s_def double_branch_def stand_in_def
        p0_double_def in_bounds_double np_sqrt_def item_def fl_3 a1 a2 del: power_numeral)
qed

subsection \<open>Half-lives\<close>

text \<open>
  Claim C1. Whenever the main loop of \<^verbatim>\<open>final_fit.py\<close> obtains a fit, the half-life it derives
  is the fitted decay time times \<open>ln 2\<close> and the half-life error is the standard error of
  the decay time times \<open>ln 2\<close>: for the single fit, and for both components of the double
  fit (whose errors are \<^verbatim>\<open>perr[1]\<close> and \<^verbatim>\<open>perr[3]\<close>). Over the reals the equations are exact.
\<close>

theorem half_life_derivation:
  assumes "try_body cf ft t y sigma = Inr r"
  shows "case cf_values r of
           SingleV s \<Rightarrow>
             ft = Single \<and> sf_t_half s = sf_tau s * ln 2 \<and>
             sf_t_half_err s = sf_tau_err s * ln 2
         | DoubleV d \<Rightarrow>
             ft = Double \<and> df_t1_half d = df_tau1 d * ln 2 \<and>
             df_t1_half_err d = df_perr d ! 1 * ln 2 \<and>
             df_t2_half d = df_tau2 d * ln 2 \<and>
             df_t2_half_err d = df_perr d ! 3 * ln 2"
proof -
  from try_body_result [OF assms] obtain a c0 d where
    br: "(case ft of
              Single \<Rightarrow> single_branch cf t y sigma a d c0
            | Double \<Rightarrow> double_branch cf t y sigma a d c0) = Inr (cf_values r, cf_yfit r)"
    by blast
  show ?thesis
  proof (cases ft)
    case Single
    with br have "single_branch cf t y sigma a d c0 = Inr (cf_values r, cf_yfit r)"
      by simp
    from single_branch_result [OF this] Single show ?thesis
      by (auto simp: LN2_def)
  next
    case Double
    with br have "double_branch cf t y sigma a d c0 = Inr (cf_values r, cf_yfit r)"
      by simp
    from double_branch_result [OF this] Double show ?thesis
      by (auto simp: LN2_def item_Inr)
  qed
qed

theorem half_life_derivation_witness:
  "\<exists>r s. try_body (stand_in [] [0, 3, -1] [[1, 0, 0], [0, 4, 0], [0, 0, 9]]) Single
            (ms_to_s [0, 1000, 2000, 3000]) [9, 4, 4, 1] (sigma_of [9, 4, 4, 1]) = Inr r \<and>
         cf_values r = SingleV s \<and> sf_tau s = 3 \<and> sf_tau_err s = 2 \<and>
         sf_t_half s = 3 * ln 2 \<and> sf_t_half_err s = 2 * ln 2"
  using half_life_derivation [OF run_single] run_single by (simp add: LN2_def)

subsection \<open>Abundances\<close>

lemma abundance_upper:
  fixes a S t :: real
  assumes a: "0 \<le> a" and S: "0 < S" and t: "S * (1 - 1 / 2 ^ 53) \<le> t"
  shows "fl (fl (a / t) * 100) \<le> 100 * (a / S) * (1 + 4 / 2 ^ 53)"
proof -
  define u :: real where "u = 1 / 2 ^ 53"
  have u: "0 < u" "u < 1" by (simp_all add: u_def)
  have tpos: "0 < t"
  proof -
    have "0 < S * (1 - 1 / 2 ^ 53)" using S by simp
    with t show ?thesis by linarith
  qed
  have p: "0 \<le> a / t" using a tpos by simp
  have q: "0 \<le> fl (a / t)" using p by (rule fl_nonneg)
  have "fl (fl (a / t) * 100) \<le> fl (a / t) * 100 * (1 + u)"
    unfolding u_def using q by (intro fl_upper) simp
  also have "\<dots> \<le> (a / t) * (1 + u) * 100 * (1 + u)"
    using fl_upper [OF p] u by (simp add: u_def)
  also have "\<dots> \<le> (a / (S * (1 - u))) * (1 + u) * 100 * (1 + u)"
  proof -
    have "a / t \<le> a / (S * (1 - u))"
      using a S u t by (intro divide_left_mono) (simp_all add: u_def tpos)
    then show ?thesis by (intro mult_right_mono) (use u in simp_all)
  qed
  also have "\<dots> = 100 * (a / S) * ((1 + u)\<^sup>2 / (1 - u))"
    using S u by (simp add: power2_eq_square field_simps)
  also have "\<dots> \<le> 100 * (a / S) * (1 + 4 * u)"
  proof -
    have "(1 + u)\<^sup>2 / (1 - u) \<le> 1 + 4 * u"
      by (simp add: u_def power2_eq_square)
    moreover have "0 \<le> 100 * (a / S)" using a S by simp
    ultimately show ?thesis by (rule mult_left_mono)
  qed
  finally show ?thesis by (simp add: u_def)
qed

lemma abundance_lower:
  fixes a S t :: real
  assumes a: "0 \<le> a" and S: "0 < S" and t: "t \<le> S * (1 + 1 / 2 ^ 53)" and tpos: "0 < t"
  shows "100 * (a / S) * (1 - 3 / 2 ^ 53) \<le> fl (fl (a / t) * 100)"
proof -
  define u :: real where "u = 1 / 2 ^ 53"
  have u: "0 < u" "u < 1" by (simp_all add: u_def)
  have p: "0 \<le> a / t" using a tpos by simp
  have q: "0 \<le> fl (a / t)" using p by (rule fl_nonneg)
  have "100 * (a / S) * (1 - 3 * u) \<le> 100 * (a / S) * ((1 - u)\<^sup>2 / (1 + u))"
  proof -
    have "1 - 3 * u \<le> (1 - u)\<^sup>2 / (1 + u)"
      by (simp add: u_def power2_eq_square)
    moreover have "0 \<le> 100 * (a / S)" using a S by simp
    ultimately show ?thesis by (rule mult_left_mono)
  qed
  also have "\<dots> = (a / (S * (1 + u))) * (1 - u) * 100 * (1 - u)"
    using S u by (simp add: power2_eq_square field_simps)
  also have "\<dots> \<le> (a / t) * (1 - u) * 100 * (1 - u)"
  proof -
    have "a / (S * (1 + u)) \<le> a / t"
      using a S u t tpos by (intro divide_left_mono) (simp_all add: u_def)
    then show ?thesis by (intro mult_right_mono) (use u in simp_all)
  qed
  also have "\<dots> \<le> fl (a / t) * 100 * (1 - u)"
    using fl_lower [OF p] u by (simp add: u_def)
  also have "\<dots> \<le> fl (fl (a / t) * 100)"
    unfolding u_def using q by (intro fl_lower) simp
  finally show ?thesis by (simp add: u_def)
qed

lemma abundances_near:
  fixes a1 a2 :: real
  assumes a1: "0 \<le> a1" and a2: "0 \<le> a2" and S: "a1 + a2 \<noteq> 0"
  defines "t \<equiv> fl (a1 + a2)"
  shows "\<bar>fl (fl (a1 / t) * 100) - 100 * a1 / (a1 + a2)\<bar> \<le> 400 / 2 ^ 53"
    and "\<bar>fl (fl (a2 / t) * 100) - 100 * a2 / (a1 + a2)\<bar> \<le> 400 / 2 ^ 53"
    and "\<bar>fl (fl (a1 / t) * 100) + fl (fl (a2 / t) * 100) - 100\<bar> \<le> 400 / 2 ^ 53"
proof -
  have Spos: "0 < a1 + a2" using a1 a2 S by linarith
  have tl: "(a1 + a2) * (1 - 1 / 2 ^ 53) \<le> t"
    unfolding t_def using Spos by (intro fl_lower) simp
  have tu: "t \<le> (a1 + a2) * (1 + 1 / 2 ^ 53)"
    unfolding t_def using Spos by (intro fl_upper) simp
  have tpos: "0 < t" unfolding t_def using Spos by (rule fl_pos)
  define w1 where "w1 = a1 / (a1 + a2)"
  define w2 where "w2 = a2 / (a1 + a2)"
  have w: "0 \<le> w1" "0 \<le> w2" "w1 + w2 = 1" "w1 \<le> 1" "w2 \<le> 1"
    using a1 a2 Spos by (simp_all add: w1_def w2_def add_divide_distrib [symmetric])
  define b1 where "b1 = fl (fl (a1 / t) * 100)"
  define b2 where "b2 = fl (fl (a2 / t) * 100)"
  have u1: "b1 \<le> 100 * w1 * (1 + 4 / 2 ^ 53)"
    unfolding b1_def w1_def using a1 Spos tl by (rule abundance_upper)
  have u2: "b2 \<le> 100 * w2 * (1 + 4 / 2 ^ 53)"
    unfolding b2_def w2_def using a2 Spos tl by (rule abundance_upper)
  have l1: "100 * w1 * (1 - 3 / 2 ^ 53) \<le> b1"
    unfolding b1_def w1_def using a1 Spos tu tpos by (rule abundance_lower)
  have l2: "100 * w2 * (1 - 3 / 2 ^ 53) \<le> b2"
    unfolding b2_def w2_def using a2 Spos tu tpos by (rule abundance_lower)
  have u1': "b1 \<le> 100 * w1 + 400 / 2 ^ 53 * w1"
    using u1 by (simp add: algebra_simps)
  have u2': "b2 \<le> 100 * w2 + 400 / 2 ^ 53 * w2"
    using u2 by (simp add: algebra_simps)
  have l1': "100 * w1 - 300 / 2 ^ 53 * w1 \<le> b1"
    using l1 by (simp add: algebra_simps)
  have l2': "100 * w2 - 300 / 2 ^ 53 * w2 \<le> b2"
    using l2 by (simp add: algebra_simps)
  have c: "(2::real) ^ 53 = 9007199254740992" by simp
  have e1: "\<bar>b1 - 100 * w1\<bar> \<le> 400 / 2 ^ 53"
    using u1' l1' w unfolding c by linarith
  have e2: "\<bar>b2 - 100 * w2\<bar> \<le> 400 / 2 ^ 53"
    using u2' l2' w unfolding c by linarith
  have e3: "\<bar>b1 + b2 - 100\<bar> \<le> 400 / 2 ^ 53"
    using u1' u2' l1' l2' w unfolding c by linarith
  show "\<bar>fl (fl (a1 / t) * 100) - 100 * a1 / (a1 + a2)\<bar> \<le> 400 / 2 ^ 53"
    using e1 by (simp add: b1_def w1_def)
  show "\<bar>fl (fl (a2 / t) * 100) - 100 * a2 / (a1 + a2)\<bar> \<le> 400 / 2 ^ 53"
    using e2 by (simp add: b2_def w2_def)
  show "\<bar>fl (fl (a1 / t) * 100) + fl (fl (a2 / t) * 100) - 100\<bar> \<le> 400 / 2 ^ 53"
    using e3 by (simp add: b1_def b2_def)
qed

text \<open>With amplitudes of ordinary magnitude the exact result of every operation of lines
  128-130 is of normal magnitude, where \<open>fl\<close> is the rounding of binary64.\<close>

lemma pow2_mono: "a \<le> b \<Longrightarrow> pow2 a \<le> pow2 b"
  by (simp add: pow2_powr)

lemma normal64_I:
  assumes "pow2 (- 1022) \<le> x" and "x \<le> pow2 1023"
  shows "normal64 x"
proof -
  have "0 < pow2 (- 1022)" by (rule pow2_pos)
  with assms(1) have x0: "0 < x" by linarith
  have "1 \<le> 2 - pow2 (- 52)" by (simp add: pow2_def)
  then have "1 * pow2 1023 \<le> (2 - pow2 (- 52)) * pow2 1023"
    using pow2_pos [of 1023] by (intro mult_right_mono) simp_all
  then have top: "pow2 1023 \<le> (2 - pow2 (- 52)) * pow2 1023"
    by (simp only: mult_1)
  have hi: "\<bar>x\<bar> \<le> (2 - pow2 (- 52)) * pow2 1023"
    using order_trans [OF assms(2) top] x0 by (simp only: abs_of_pos)
  have lo: "pow2 (- 1022) \<le> \<bar>x\<bar>"
    using assms(1) x0 by (simp only: abs_of_pos)
  show ?thesis unfolding normal64_def using lo hi by blast
qed

lemma ordinary_nonneg: "ordinary a \<Longrightarrow> 0 \<le> a"
  using pow2_pos [of "- 500"] by (auto simp: ordinary_def)

lemma abundance_steps_normal:
  assumes o1: "ordinary a1" and o2: "ordinary a2" and nz: "a1 + a2 \<noteq> 0"
  shows "normal64 (a1 + a2) \<and> normal64 (a1 / fl (a1 + a2)) \<and>
         normal64 (fl (a1 / fl (a1 + a2)) * 100)"
proof -
  define S where "S = a1 + a2"
  define t where "t = fl S"
  have n1: "0 \<le> a1" and n2: "0 \<le> a2"
    using o1 o2 by (simp_all add: ordinary_nonneg)
  have Spos: "0 < S" using n1 n2 nz by (simp add: S_def)
  have p500: "0 < pow2 (- 500)" by (rule pow2_pos)
  have Slo: "pow2 (- 500) \<le> S"
    using o1 o2 nz n1 n2 p500 unfolding ordinary_def S_def by auto
  have Shi: "S \<le> pow2 501"
  proof -
    have "a1 \<le> pow2 500" using o1 pow2_pos [of 500] by (auto simp: ordinary_def)
    moreover have "a2 \<le> pow2 500" using o2 pow2_pos [of 500] by (auto simp: ordinary_def)
    moreover have "pow2 501 = 2 * pow2 500"
      using pow2_add [of 1 500] by (simp add: pow2_def [of 1])
    ultimately show ?thesis by (simp add: S_def)
  qed
  have tlo: "S / 2 \<le> t"
  proof -
    have "S / 2 \<le> S * (1 - 1 / 2 ^ 53)" using Spos by (simp add: field_simps)
    also have "\<dots> \<le> t" unfolding t_def using Spos by (intro fl_lower) simp
    finally show ?thesis .
  qed
  have thi: "t \<le> 2 * S"
  proof -
    have "t \<le> S * (1 + 1 / 2 ^ 53)" unfolding t_def using Spos by (intro fl_upper) simp
    also have "\<dots> \<le> 2 * S" using Spos by (simp add: field_simps)
    finally show ?thesis .
  qed
  have tpos: "0 < t" using tlo Spos by linarith
  have nS: "normal64 S"
  proof (rule normal64_I)
    show "pow2 (- 1022) \<le> S" using Slo pow2_mono [of "- 1022" "- 500"] by simp
    show "S \<le> pow2 1023" using Shi pow2_mono [of 501 1023] by simp
  qed
  have npr: "normal64 (a1 / t) \<and> normal64 (fl (a1 / t) * 100)"
  proof -
    show ?thesis
    proof (cases "a1 = 0")
      case True
      then show ?thesis
        by (simp add: normal64_def fl_def)
    next
      case False
      with o1 have a1: "pow2 (- 500) \<le> a1" "a1 \<le> pow2 500"
        by (simp_all add: ordinary_def)
      have a1S: "a1 \<le> S" using n2 by (simp add: S_def)
      have plo: "pow2 (- 1002) \<le> a1 / t"
      proof -
        have "pow2 (- 1002) = pow2 (- 500) / pow2 502"
          using pow2_add [of "- 1002" 502] pow2_pos [of 502] by (simp add: field_simps)
        also have "\<dots> \<le> a1 / pow2 502"
          using a1 pow2_pos [of 502] by (simp add: divide_right_mono)
        also have "\<dots> \<le> a1 / t"
        proof -
          have "t \<le> pow2 502"
          proof -
            have "pow2 502 = 2 * pow2 501"
              using pow2_add [of 1 501] by (simp add: pow2_def [of 1])
            with thi Shi show ?thesis by simp
          qed
          then show ?thesis using n1 tpos by (intro divide_left_mono) simp_all
        qed
        finally show ?thesis .
      qed
      have phi: "a1 / t \<le> 2"
      proof -
        have "a1 \<le> 2 * t" using a1S tlo by linarith
        then show ?thesis using tpos by (simp add: field_simps)
      qed
      have g1: "normal64 (a1 / t)"
      proof (rule normal64_I)
        show "pow2 (- 1022) \<le> a1 / t"
          using plo pow2_mono [of "- 1022" "- 1002"] by simp
        have "(2::real) \<le> pow2 1023"
          using pow2_mono [of 1 1023] by (simp add: pow2_def [of 1])
        with phi show "a1 / t \<le> pow2 1023" by linarith
      qed
      have ppos: "0 \<le> a1 / t" using n1 tpos by simp
      have qlo: "pow2 (- 1002) / 2 \<le> fl (a1 / t)"
      proof -
        have "pow2 (- 1002) / 2 \<le> (a1 / t) / 2" using plo by simp
        also have "\<dots> \<le> (a1 / t) * (1 - 1 / 2 ^ 53)" using ppos by (simp add: field_simps)
        also have "\<dots> \<le> fl (a1 / t)" using ppos by (rule fl_lower)
        finally show ?thesis .
      qed
      have qhi: "fl (a1 / t) \<le> 4"
      proof -
        have "fl (a1 / t) \<le> (a1 / t) * (1 + 1 / 2 ^ 53)" using ppos by (rule fl_upper)
        also have "\<dots> \<le> (a1 / t) * 2" using ppos by (intro mult_left_mono) simp_all
        also have "\<dots> \<le> 2 * 2" using phi by (intro mult_right_mono) simp_all
        finally show ?thesis by simp
      qed
      have g2: "normal64 (fl (a1 / t) * 100)"
      proof (rule normal64_I)
        have "pow2 (- 1022) \<le> pow2 (- 1002) / 2"
        proof -
          have "pow2 (- 1002) = pow2 (- 1003) * 2"
            using pow2_add [of "- 1003" 1] by (simp add: pow2_def [of 1])
          then show ?thesis using pow2_mono [of "- 1022" "- 1003"] by simp
        qed
        also have "\<dots> \<le> fl (a1 / t)" by (rule qlo)
        also have "\<dots> \<le> fl (a1 / t) * 100"
          using qlo pow2_pos [of "- 1002"] by simp
        finally show "pow2 (- 1022) \<le> fl (a1 / t) * 100" .
        have "(400::real) \<le> pow2 1023"
          using pow2_mono [of 9 1023] by (simp add: pow2_def [of 9])
        with qhi show "fl (a1 / t) * 100 \<le> pow2 1023" by linarith
      qed
      from g1 g2 show ?thesis by blast
    qed
  qed
  show ?thesis using nS npr by (simp add: S_def t_def)
qed

text \<open>
  Claim C7, as stated, wants the two abundances to sum to 100 exactly. A double fit with
  the amplitudes 1 and 2 reports \<open>4691249611844266 / 2 ^ 47\<close> (printed by Python as
  \<^verbatim>\<open>33.33333333333333\<close>) and \<open>4691249611844266 / 2 ^ 46\<close> (\<^verbatim>\<open>66.66666666666666\<close>), and their
  sum is not 100.
\<close>

theorem abundances_sum_not_exactly_100:
  "try_body (stand_in [] [1, 1, 2, 2, 0]
       [[1, 0, 0, 0, 0], [0, 4, 0, 0, 0], [0, 0, 1, 0, 0], [0, 0, 0, 9, 0], [0, 0, 0, 0, 1]])
     Double (ms_to_s [0, 1000, 2000, 3000]) [9, 4, 4, 1] (sigma_of [9, 4, 4, 1]) =
   Inr \<lparr>cf_values = DoubleV \<lparr>df_A1 = 1, df_tau1 = 1, df_A2 = 2, df_tau2 = 2,
                      df_c_val = 0, df_perr = [1, 2, 1, 3, 1],
                      df_t1_half = 1 * LN2, df_t1_half_err = 2 * LN2,
                      df_t2_half = 2 * LN2, df_t2_half_err = 3 * LN2,
                      df_total_amp = 3,
                      df_abund1 = 4691249611844266 / 2 ^ 47,
                      df_abund2 = 4691249611844266 / 2 ^ 46\<rparr>,
        cf_yfit = [model_double 0 1 1 2 2 0, model_double 1 1 1 2 2 0,
                   model_double 2 1 1 2 2 0, model_double 3 1 1 2 2 0],
        cf_rmse = rmse_of [9, 4, 4, 1]
                    [model_double 0 1 1 2 2 0, model_double 1 1 1 2 2 0,
                     model_double 2 1 1 2 2 0, model_double 3 1 1 2 2 0]\<rparr> \<and>
   (1 :: real) + 2 \<noteq> 0 \<and>
   (4691249611844266 / 2 ^ 47 + 4691249611844266 / 2 ^ 46 :: real) \<noteq> 100"
  using run_double_1_2 by simp

text \<open>
  Claim C7, amended. Whenever a double fit succeeds with amplitudes of ordinary magnitude
  (zero, or between \<open>2 ^ -500\<close> and \<open>2 ^ 500\<close>; the bounds make them non-negative) and
  \<open>A1 + A2 \<noteq> 0\<close>, the abundances are \<open>(A1 / (A1 + A2)) * 100\<close> and \<open>(A2 / (A1 + A2)) * 100\<close>
  as \<^verbatim>\<open>float64\<close> computes them: each is within \<open>400 / 2 ^ 53\<close> of \<open>100 * Ai / (A1 + A2)\<close>,
  and their sum is within \<open>400 / 2 ^ 53\<close> of 100.
\<close>

theorem abundances_sum_near_100:
  assumes "try_body cf Double t y sigma = Inr r"
    and "cf_values r = DoubleV d"
    and "ordinary (df_A1 d)" and "ordinary (df_A2 d)"
    and "df_A1 d + df_A2 d \<noteq> 0"
  shows "df_abund1 d = fl (fl (df_A1 d / fl (df_A1 d + df_A2 d)) * 100) \<and>
         df_abund2 d = fl (fl (df_A2 d / fl (df_A1 d + df_A2 d)) * 100) \<and>
         \<bar>df_abund1 d - 100 * df_A1 d / (df_A1 d + df_A2 d)\<bar> \<le> 400 / 2 ^ 53 \<and>
         \<bar>df_abund2 d - 100 * df_A2 d / (df_A1 d + df_A2 d)\<bar> \<le> 400 / 2 ^ 53 \<and>
         \<bar>df_abund1 d + df_abund2 d - 100\<bar> \<le> 400 / 2 ^ 53"
proof -
  from try_body_result [OF assms(1)] obtain a c0 dur where
    "double_branch cf t y sigma a dur c0 = Inr (cf_values r, cf_yfit r)"
    by auto
  from double_branch_result [OF this] assms(2) obtain A1 A2 where
    d: "df_A1 d = A1" "df_A2 d = A2"
       "df_abund1 d = fl (fl (A1 / fl (A1 + A2)) * 100)"
       "df_abund2 d = fl (fl (A2 / fl (A1 + A2)) * 100)"
    by auto
  have n1: "0 \<le> A1" and n2: "0 \<le> A2"
    using assms(3,4) d by (simp_all add: ordinary_nonneg)
  have nz: "A1 + A2 \<noteq> 0" using assms(5) d by simp
  from abundances_near [OF n1 n2 nz] show ?thesis
    by (simp only: d)
qed

theorem abundances_sum_near_100_witness:
  "\<exists>r d. try_body (stand_in [] [1, 1, 2, 2, 0]
              [[1, 0, 0, 0, 0], [0, 4, 0, 0, 0], [0, 0, 1, 0, 0], [0, 0, 0, 9, 0],
               [0, 0, 0, 0, 1]])
            Double (ms_to_s [0, 1000, 2000, 3000]) [9, 4, 4, 1] (sigma_of [9, 4, 4, 1]) = Inr r \<and>
         cf_values r = DoubleV d \<and> ordinary (df_A1 d) \<and> ordinary (df_A2 d) \<and>
         df_A1 d + df_A2 d \<noteq> 0 \<and>
         df_abund1 d + df_abund2 d = 14073748835532798 / 2 ^ 47 \<and>
         \<bar>df_abund1 d + df_abund2 d - 100\<bar> \<le> 400 / 2 ^ 53"
proof -
  let ?d = "\<lparr>df_A1 = 1, df_tau1 = 1, df_A2 = 2, df_tau2 = 2,
             df_c_val = 0, df_perr = [1, 2, 1, 3, 1],
             df_t1_half = 1 * LN2, df_t1_half_err = 2 * LN2,
             df_t2_half = 2 * LN2, df_t2_half_err = 3 * LN2,
             df_total_amp = 3,
             df_abund1 = 4691249611844266 / 2 ^ 47,
             df_abund2 = 4691249611844266 / 2 ^ 46\<rparr>"
  have o1: "ordinary (df_A1 ?d)" and o2: "ordinary (df_A2 ?d)"
    by (simp_all add: ordinary_def pow2_def)
  have nz: "df_A1 ?d + df_A2 ?d \<noteq> 0" by simp
  from abundances_sum_near_100 [OF run_double_1_2 _ o1 o2 nz]
  have "\<bar>df_abund1 ?d + df_abund2 ?d - 100\<bar> \<le> 400 / 2 ^ 53" by simp
  with run_double_1_2 o1 o2 show ?thesis by simp
qed

subsection \<open>Initial guesses\<close>

lemma fold_max_Max: "fold max xs (x::real) = Max (set (x # xs))"
  using Max.set_eq_fold [of x xs] by simp

lemma fold_min_Min: "fold min xs (x::real) = Min (set (x # xs))"
  using Min.set_eq_fold [of x xs] by simp

lemma py_max_nonempty: "y \<noteq> [] \<Longrightarrow> py_max y = Inr (Max (set y))"
  by (cases y) (simp_all add: fold_max_Max)

lemma py_min_nonempty: "y \<noteq> [] \<Longrightarrow> py_min y = Inr (Min (set y))"
  by (cases y) (simp_all add: fold_min_Min)

lemma np_max_nonempty: "t \<noteq> [] \<Longrightarrow> np_max t = Inr (Max (set t))"
  by (cases t) (simp_all add: fold_max_Max)

lemma np_min_nonempty: "t \<noteq> [] \<Longrightarrow> np_min t = Inr (Min (set t))"
  by (cases t) (simp_all add: fold_min_Min)

text \<open>
  Claim C8. For a non-empty series the guesses are computed from the data: the amplitude
  guess is \<open>max(count) - min(count)\<close>, the baseline guess \<open>min(count)\<close>; a single fit
  starts from the whole span and a third of the duration, a double fit from half the
  span for each component and a tenth and a half of the duration. This is the main loop
  of \<^verbatim>\<open>final_fit.py\<close> and \<^verbatim>\<open>Radioactive_Code.py\<close>.
\<close>

theorem initial_guesses_from_data:
  assumes "t \<noteq> []" and "y \<noteq> []"
  shows "guesses t y = Inr (Max (set y) - Min (set y), Min (set y), Max (set t) - Min (set t)) \<and>
         p0_single (Max (set y) - Min (set y)) (Max (set t) - Min (set t)) (Min (set y)) =
           [Max (set y) - Min (set y), (Max (set t) - Min (set t)) / 3, Min (set y)] \<and>
         p0_double (Max (set y) - Min (set y)) (Max (set t) - Min (set t)) (Min (set y)) =
           [(Max (set y) - Min (set y)) / 2, (Max (set t) - Min (set t)) / 10,
            (Max (set y) - Min (set y)) / 2, (Max (set t) - Min (set t)) / 2, Min (set y)] \<and>
         radioactive_p0 t y =
           Inr [Max (set y) - Min (set y), (Max (set t) - Min (set t)) / 3, Min (set y)]"
  using assms
  by (simp add: guesses_def p0_single_def p0_double_def radioactive_p0_def
      py_max_nonempty py_min_nonempty np_max_nonempty np_min_nonempty)

theorem initial_guesses_from_data_witness:
  "[0, 1, 2, 3 :: real] \<noteq> [] \<and> [9, 4, 4, 1 :: real] \<noteq> [] \<and>
   guesses [0, 1, 2, 3] [9, 4, 4, 1] = Inr (8, 1, 3) \<and>
   p0_single 8 3 1 = [8, 1, 1] \<and>
   p0_double 8 3 1 = [4, 3 / 10, 4, 3 / 2, 1] \<and>
   radioactive_p0 [0, 1, 2, 3] [9, 4, 4, 1] = Inr [8, 1, 1]"
  using initial_guesses_from_data [of "[0, 1, 2, 3]" "[9, 4, 4, 1]"] by simp

text \<open>The second half of \<^verbatim>\<open>final_fit.py\<close> starts from the same values, but for the decay time
  of a series with no duration, which is 1 there.\<close>

lemma initial_p0_positive_duration:
  assumes "t \<noteq> []" and "y \<noteq> []"
  shows "initial_p0 t y =
           Inr [Max (set y) - Min (set y),
                if 0 < Max (set t) - Min (set t) then (Max (set t) - Min (set t)) / 3 else 1,
                Min (set y)]"
  using assms
  by (simp add: initial_p0_def
      py_max_nonempty py_min_nonempty np_max_nonempty np_min_nonempty)

text \<open>
  Claim C5. The claim wants the decay-time guess of a series with no duration to fall
  back to 1. A file with the single row \<^verbatim>\<open>1000,5\<close> has no duration and no span: the
  amplitude guess is 0 everywhere, but the decay-time guess is 0 in the main loop of
  \<^verbatim>\<open>final_fit.py\<close> (single and double) and in \<^verbatim>\<open>Radioactive_Code.py\<close>; only the second half of
  \<^verbatim>\<open>final_fit.py\<close> falls back to 1.
\<close>

theorem zero_duration_guess:
  "guesses (ms_to_s [1000]) [5] = Inr (0, 5, 0) \<and>
   p0_single 0 0 5 = [0, 0, 5] \<and>
   p0_double 0 0 5 = [0, 0, 0, 0, 5] \<and>
   radioactive_p0 (ms_to_s [1000]) [5] = Inr [0, 0, 5] \<and>
   initial_p0 (ms_to_s [1000]) [5] = Inr [0, 1, 5]"
  by (simp add: guesses_def p0_single_def p0_double_def radioactive_p0_def initial_p0_def
      ms_to_s_def)

subsection \<open>Failures\<close>

text \<open>The main loop of \<^verbatim>\<open>final_fit.py\<close> always visits all four files, and an exception of the
  fit becomes the report of that channel; so does the second half for an exception of
  the solver. \<^verbatim>\<open>Radioactive_Code.py\<close> ends with the first exception.\<close>

lemma main_loop_never_fatal:
  "\<exists>outs. main_loop cf files = Inr outs \<and> length outs = 4"
  by (simp add: main_loop_def FIT_TYPES_def)

lemma process_file_reports_failure:
  assumes "try_body cf ft (ms_to_s time_list) y (sigma_of y) = Inl e"
  shows "process_file cf ft (Rows time_list y) = FitFailed (str_exc e) (ms_to_s time_list) y"
  using assms by (simp add: process_file_def)

lemma try_body_solver_failure:
  assumes "guesses t y = Inr (a, c, d)"
    and "cf model_single_args t y (p0_single a d c) sigma True bounds_single = Inl e"
  shows "try_body cf Single t y sigma = Inl e"
  using assms by (simp add: try_body_def single_branch_def)

lemma initial_channel_catches:
  assumes "initial_p0 t y = Inr p0"
    and "fit_model cf True t y p0 (sigma_of y) = Inl e"
  shows "initial_channel cf t y = Inr (FitFailed (str_exc e) t y)"
  using assms by (simp add: initial_channel_def)

lemma radioactive_code_stops:
  assumes "radioactive_channel cf (ms_to_s time) y = Inl e"
  shows "radioactive_code cf time (y # ys) = Inl e"
  using assms by (simp add: radioactive_code_def)

text \<open>
  Claim C3. The claim wants a failure of the solver to be reported with its reason and
  the batch to go on. With a solver that raises on the first of four sources,
  \<^verbatim>\<open>Radioactive_Code.py\<close> ends with that exception and fits no source, where the second half
  of \<^verbatim>\<open>final_fit.py\<close>, on the same data, reports the failure of the first channel with its
  message and the raw data and fits the other three.
\<close>

theorem solver_failure_ends_Radioactive_Code:
  "radioactive_code
     (stand_in [[25, 16, 4, 4, 1]] [0, 3, 0] [[1, 0, 0], [0, 4, 0], [0, 0, 9]])
     [0, 1000, 2000, 3000, 4000]
     [[25, 16, 4, 4, 1], [36, 25, 9, 4, 4], [16, 9, 4, 1, 1], [9, 4, 4, 1, 0]] =
     Inl (RuntimeError ''Optimal parameters not found'') \<and>
   (\<exists>m2 m3 m4.
      initial_fits
        (stand_in [[25, 16, 4, 4, 1]] [0, 3, 0] [[1, 0, 0], [0, 4, 0], [0, 0, 9]])
        [0, 1000, 2000, 3000, 4000]
        [[25, 16, 4, 4, 1], [36, 25, 9, 4, 4], [16, 9, 4, 1, 1], [9, 4, 4, 1, 0]] =
      Inr [FitFailed ''Optimal parameters not found'' [0, 1, 2, 3, 4] [25, 16, 4, 4, 1],
           Fitted m2, Fitted m3, Fitted m4])"
  by (simp add: radioactive_code_def radioactive_channel_def radioactive_p0_def
      initial_fits_def initial_channel_def initial_p0_def ms_to_s_def fit_model_def
      stand_in_def in_bounds_def np_sqrt_def Let_def)

text \<open>
  Claim C4. The claim wants the empty series to fail with an error of its own before the
  solver is called. Everywhere the amplitude guess raises
  \<^verbatim>\<open>ValueError: max() arg is an empty sequence\<close>, so the solver is never called and the outcome
  does not depend on it. The main loop of \<^verbatim>\<open>final_fit.py\<close> has the guess inside its \<^verbatim>\<open>try\<close>
  statement: it reports the failure with that message and goes on. The second half of
  \<^verbatim>\<open>final_fit.py\<close> and \<^verbatim>\<open>Radioactive_Code.py\<close> have it outside any \<^verbatim>\<open>try\<close> statement: a file
  with no rows (the first series is then empty) ends the script with the exception.
\<close>

theorem empty_series_fails_before_solver:
  "try_body cf ft t [] sigma = Inl (ValueError ''max() arg is an empty sequence'') \<and>
   process_file cf ft (Rows time_list []) =
     FitFailed ''max() arg is an empty sequence'' (ms_to_s time_list) [] \<and>
   initial_fits cf raw_time ([] # ys) = Inl (ValueError ''max() arg is an empty sequence'') \<and>
   radioactive_code cf time ([] # ys) = Inl (ValueError ''max() arg is an empty sequence'')"
  by (simp add: try_body_def guesses_def process_file_def initial_fits_def
      initial_channel_def initial_p0_def radioactive_code_def radioactive_channel_def
      radioactive_p0_def)

subsection \<open>Bounds\<close>

text \<open>
  Claim C6. With a solver that keeps to the bounds it is given, every fit has amplitudes
  and decay times that are not negative: the single and the double fit of the main loop,
  and the fits of \<^verbatim>\<open>Radioactive_Code.py\<close> and of the second half of \<^verbatim>\<open>final_fit.py\<close>. The bounds
  constrain the amplitudes and decay times only: a parameter vector lies within them
  whatever its baseline is.
\<close>

theorem fitted_parameters_nonnegative:
  assumes "honours_bounds cf"
  shows "(\<forall>r. try_body cf ft t y sigma = Inr r \<longrightarrow>
            (case cf_values r of
               SingleV s \<Rightarrow> 0 \<le> sf_A s \<and> 0 \<le> sf_tau s
             | DoubleV d \<Rightarrow> 0 \<le> df_A1 d \<and> 0 \<le> df_tau1 d \<and> 0 \<le> df_A2 d \<and> 0 \<le> df_tau2 d)) \<and>
         (\<forall>m. fit_model cf ab t y p0 sigma = Inr m \<longrightarrow> 0 \<le> mf_N0 m \<and> 0 \<le> mf_tau m) \<and>
         (\<forall>a tau c. in_bounds bounds_single [a, tau, c] = (0 \<le> a \<and> 0 \<le> tau)) \<and>
         (\<forall>a1 tau1 a2 tau2 c. in_bounds bounds_double [a1, tau1, a2, tau2, c] =
            (0 \<le> a1 \<and> 0 \<le> tau1 \<and> 0 \<le> a2 \<and> 0 \<le> tau2))"
proof (intro conjI allI impI)
  fix r
  assume run: "try_body cf ft t y sigma = Inr r"
  from try_body_result [OF run] obtain a c0 d where
    br: "(case ft of
              Single \<Rightarrow> single_branch cf t y sigma a d c0
            | Double \<Rightarrow> double_branch cf t y sigma a d c0) = Inr (cf_values r, cf_yfit r)"
    by blast
  show "case cf_values r of
               SingleV s \<Rightarrow> 0 \<le> sf_A s \<and> 0 \<le> sf_tau s
             | DoubleV d \<Rightarrow> 0 \<le> df_A1 d \<and> 0 \<le> df_tau1 d \<and> 0 \<le> df_A2 d \<and> 0 \<le> df_tau2 d"
  proof (cases ft)
    case Single
    with br have "single_branch cf t y sigma a d c0 = Inr (cf_values r, cf_yfit r)"
      by simp
    from single_branch_result [OF this] obtain A tau c pcov tau_err where
      call: "cf model_single_args t y (p0_single a d c0) sigma True bounds_single
               = Inr ([A, tau, c], pcov)"
      and v: "cf_values r = SingleV \<lparr>sf_A = A, sf_tau = tau, sf_c = c, sf_tau_err = tau_err,
                     sf_t_half = tau * LN2, sf_t_half_err = tau_err * LN2\<rparr>"
      by blast
    from assms call have "in_bounds bounds_single [A, tau, c]"
      unfolding honours_bounds_def by blast
    then show ?thesis using v by (simp add: in_bounds_single)
  next
    case Double
    with br have "double_branch cf t y sigma a d c0 = Inr (cf_values r, cf_yfit r)"
      by simp
    from double_branch_result [OF this] obtain A1 tau1 A2 tau2 c_val pcov perr1 perr3 where
      call: "cf model_double_args t y (p0_double a d c0) sigma True bounds_double
               = Inr ([A1, tau1, A2, tau2, c_val], pcov)"
      and v: "cf_values r = DoubleV \<lparr>df_A1 = A1, df_tau1 = tau1, df_A2 = A2, df_tau2 = tau2,
                      df_c_val = c_val, df_perr = np_sqrt (np_diag pcov),
                      df_t1_half = tau1 * LN2, df_t1_half_err = perr1 * LN2,
                      df_t2_half = tau2 * LN2, df_t2_half_err = perr3 * LN2,
                      df_total_amp = fl (A1 + A2),
                      df_abund1 = fl (fl (A1 / fl (A1 + A2)) * 100),
                      df_abund2 = fl (fl (A2 / fl (A1 + A2)) * 100)\<rparr>"
      by blast
    from assms call have "in_bounds bounds_double [A1, tau1, A2, tau2, c_val]"
      unfolding honours_bounds_def by blast
    then show ?thesis using v by (simp add: in_bounds_double)
  qed
next
  fix m
  assume "fit_model cf ab t y p0 sigma = Inr m"
  from fit_model_result [OF this] obtain pcov where
    call: "cf model_args t y p0 sigma ab ([Fin 0, Fin 0, NegInf], [PosInf, PosInf, PosInf])
             = Inr ([mf_N0 m, mf_tau m, mf_c m], pcov)"
    by blast
  from assms call
  have "in_bounds ([Fin 0, Fin 0, NegInf], [PosInf, PosInf, PosInf]) [mf_N0 m, mf_tau m, mf_c m]"
    unfolding honours_bounds_def by blast
  then show "0 \<le> mf_N0 m" and "0 \<le> mf_tau m"
    by (simp_all add: in_bounds_def)
qed (simp_all add: in_bounds_single in_bounds_double)

theorem fitted_parameters_nonnegative_witness:
  "honours_bounds (stand_in [] [0, 3, -1] [[1, 0, 0], [0, 4, 0], [0, 0, 9]]) \<and>
   (\<exists>r s. try_body (stand_in [] [0, 3, -1] [[1, 0, 0], [0, 4, 0], [0, 0, 9]]) Single
             (ms_to_s [0, 1000, 2000, 3000]) [9, 4, 4, 1] (sigma_of [9, 4, 4, 1]) = Inr r \<and>
          cf_values r = SingleV s \<and> 0 \<le> sf_A s \<and> 0 \<le> sf_tau s \<and> sf_c s < 0)"
  using fitted_parameters_nonnegative [OF stand_in_honours_bounds,
      of "[]" "[0, 3, -1]" "[[1, 0, 0], [0, 4, 0], [0, 0, 9]]" Single
         "ms_to_s [0, 1000, 2000, 3000]" "[9, 4, 4, 1]" "sigma_of [9, 4, 4, 1]"]
    run_single stand_in_honours_bounds
  by simp

subsection \<open>The two conventions for the covariance\<close>

lemma map_tl_scale_cov: "map tl (scale_cov s rs) = scale_cov s (map tl rs)"
  by (simp add: scale_cov_def map_tl)

lemma np_diag_scale_cov: "np_diag (scale_cov s pcov) = map (\<lambda>v. s * v) (np_diag pcov)"
proof (induction pcov rule: np_diag.induct)
  case 1
  show ?case by (simp add: scale_cov_def)
next
  case (2 rs)
  show ?case by (simp add: scale_cov_def)
next
  case (3 x xs rs)
  have "np_diag (scale_cov s ((x # xs) # rs)) = s * x # np_diag (map tl (scale_cov s rs))"
    by (simp add: scale_cov_def)
  also have "\<dots> = s * x # np_diag (scale_cov s (map tl rs))"
    by (simp only: map_tl_scale_cov)
  also have "\<dots> = map (\<lambda>v. s * v) (np_diag ((x # xs) # rs))"
    using "3.IH" by simp
  finally show ?case .
qed

lemma perr_scale_cov:
  "np_sqrt (np_diag (scale_cov s pcov)) = map (\<lambda>e. sqrt s * e) (np_sqrt (np_diag pcov))"
  by (simp add: np_diag_scale_cov np_sqrt_def real_sqrt_mult)

lemma map_eq_three:
  assumes "map f xs = [a, b, c]"
  shows "\<exists>x1 x2 x3. xs = [x1, x2, x3] \<and> a = f x1 \<and> b = f x2 \<and> c = f x3"
  using assms by (auto simp: map_eq_Cons_conv)

lemma model_args_eq: "model_single_args = model_args"
  by (rule ext, rule ext) (simp add: model_single_args_def model_args_def model_single_def model_def)

lemma radioactive_p0_result:
  assumes "radioactive_p0 t y = Inr p0"
  shows "\<exists>a c d. guesses t y = Inr (a, c, d) \<and> p0 = p0_single a d c"
  using assms unfolding radioactive_p0_def guesses_def p0_single_def
  by (auto simp: and_then_Inr Let_def)

lemma sigma_of_positive: "list_all (\<lambda>s. 0 < s) (sigma_of y)"
  by (induction y) (simp_all add: sigma_of_def np_sqrt_def np_clip_def)

lemma fit_model_rescaled:
  assumes resc: "rescales_covariance cf"
    and len: "length p0 < length y"
    and pos: "list_all (\<lambda>s. 0 < s) sigma"
    and run: "fit_model cf False t y p0 sigma = Inr m"
  shows "\<exists>pcov e1 e2 e3.
           cf model_args t y p0 sigma True ([Fin 0, Fin 0, NegInf], [PosInf, PosInf, PosInf])
             = Inr ([mf_N0 m, mf_tau m, mf_c m], pcov) \<and>
           np_sqrt (np_diag pcov) = [e1, e2, e3] \<and>
           mf_N0_err m =
             sqrt (reduced_chisq model_args t y sigma [mf_N0 m, mf_tau m, mf_c m]) * e1 \<and>
           mf_tau_err m =
             sqrt (reduced_chisq model_args t y sigma [mf_N0 m, mf_tau m, mf_c m]) * e2 \<and>
           mf_c_err m =
             sqrt (reduced_chisq model_args t y sigma [mf_N0 m, mf_tau m, mf_c m]) * e3"
proof -
  let ?b = "([Fin 0, Fin 0, NegInf], [PosInf, PosInf, PosInf])"
  let ?p = "[mf_N0 m, mf_tau m, mf_c m]"
  from fit_model_result [OF run] obtain pcov2 where
    c2: "cf model_args t y p0 sigma False ?b = Inr (?p, pcov2)"
    and e2: "np_sqrt (np_diag pcov2) = [mf_N0_err m, mf_tau_err m, mf_c_err m]"
    by blast
  from resc len pos have eq: "cf model_args t y p0 sigma False ?b =
          (case cf model_args t y p0 sigma True ?b of
             Inl e \<Rightarrow> Inl e
           | Inr (popt, pcov) \<Rightarrow>
               Inr (popt, scale_cov (reduced_chisq model_args t y sigma popt) pcov))"
    unfolding rescales_covariance_def by blast
  from eq c2 obtain pcov where
    c1: "cf model_args t y p0 sigma True ?b = Inr (?p, pcov)"
    and sc: "pcov2 = scale_cov (reduced_chisq model_args t y sigma ?p) pcov"
    by (auto split: sum.splits prod.splits)
  from e2 sc have
    "map (\<lambda>e. sqrt (reduced_chisq model_args t y sigma ?p) * e) (np_sqrt (np_diag pcov))
       = [mf_N0_err m, mf_tau_err m, mf_c_err m]"
    by (simp only: perr_scale_cov)
  from map_eq_three [OF this] c1 show ?thesis by blast
qed

lemma run_radioactive:
  "radioactive_channel (stand_in [] [0, 3, 0] [[1, 0, 0], [0, 4, 0], [0, 0, 9]])
     (ms_to_s [0, 1000, 2000, 3000, 4000]) [25, 16, 4, 4, 1] =
   Inr \<lparr>mf_N0 = 0, mf_tau = 3, mf_c = 0, mf_N0_err = 5, mf_tau_err = 10, mf_c_err = 15,
        mf_yfit = [0, 0, 0, 0, 0], mf_rmse = rmse_of [25, 16, 4, 4, 1] [0, 0, 0, 0, 0]\<rparr>"
  by (simp add: radioactive_channel_def radioactive_p0_def ms_to_s_def fit_model_def
      stand_in_def in_bounds_def np_sqrt_def model_def sigma_of_def np_clip_def
      scale_cov_def reduced_chisq_def chisq_def model_args_def real_sqrt_mult Let_def)

lemma run_reduced_chisq:
  "reduced_chisq model_args (ms_to_s [0, 1000, 2000, 3000, 4000]) [25, 16, 4, 4, 1]
     (sigma_of [25, 16, 4, 4, 1]) [0, 3, 0] = 25"
  by (simp add: reduced_chisq_def chisq_def ms_to_s_def sigma_of_def np_sqrt_def np_clip_def
      model_args_def model_def)

text \<open>
  Claim C9. \<^verbatim>\<open>Radioactive_Code.py\<close> calls the solver with \<^verbatim>\<open>absolute_sigma=False\<close>, the single fit
  of the main loop of \<^verbatim>\<open>final_fit.py\<close> with \<^verbatim>\<open>absolute_sigma=True\<close>, and all else in the two
  calls is equal. So with a solver for which the flag means what the comment in
  \<^verbatim>\<open>Radioactive_Code.py\<close> says, on every series of more than three samples that
  \<^verbatim>\<open>Radioactive_Code.py\<close> fits, the main loop obtains the same estimates, and the standard
  error of the decay time that \<^verbatim>\<open>Radioactive_Code.py\<close> reports is the one of the main loop
  times the square root of the reduced chi-square of the fit, a factor that depends on
  the data.
\<close>

theorem absolute_sigma_conventions_differ:
  assumes "rescales_covariance cf"
    and "3 < length y"
    and "radioactive_channel cf t y = Inr m"
  shows "\<exists>r s. try_body cf Single t y (sigma_of y) = Inr r \<and> cf_values r = SingleV s \<and>
           sf_A s = mf_N0 m \<and> sf_tau s = mf_tau m \<and> sf_c s = mf_c m \<and>
           mf_tau_err m =
             sqrt (reduced_chisq model_args t y (sigma_of y) [mf_N0 m, mf_tau m, mf_c m])
               * sf_tau_err s"
proof -
  let ?p = "[mf_N0 m, mf_tau m, mf_c m]"
  let ?k = "sqrt (reduced_chisq model_args t y (sigma_of y) ?p)"
  from assms(3) obtain p0 where
    p0: "radioactive_p0 t y = Inr p0"
    and run: "fit_model cf False t y p0 (sigma_of y) = Inr m"
    unfolding radioactive_channel_def by (auto simp: and_then_Inr Let_def)
  from radioactive_p0_result [OF p0] obtain a c d where
    g: "guesses t y = Inr (a, c, d)" and p0_eq: "p0 = p0_single a d c"
    by blast
  have len: "length p0 < length y"
    using assms(2) p0_eq by (simp add: p0_single_def)
  from fit_model_rescaled [OF assms(1) len sigma_of_positive run] obtain pcov e1 e2 e3 where
    call: "cf model_args t y p0 (sigma_of y) True
             ([Fin 0, Fin 0, NegInf], [PosInf, PosInf, PosInf]) = Inr (?p, pcov)"
    and perr: "np_sqrt (np_diag pcov) = [e1, e2, e3]"
    and err: "mf_tau_err m = ?k * e2"
    by blast
  have call': "cf model_single_args t y (p0_single a d c) (sigma_of y) True bounds_single
                 = Inr (?p, pcov)"
    using call by (simp add: model_args_eq p0_eq bounds_single_def)
  let ?s = "\<lparr>sf_A = mf_N0 m, sf_tau = mf_tau m, sf_c = mf_c m, sf_tau_err = e2,
              sf_t_half = mf_tau m * LN2, sf_t_half_err = e2 * LN2\<rparr>"
  let ?yfit = "map (\<lambda>ti. model_single ti (mf_N0 m) (mf_tau m) (mf_c m)) t"
  have "single_branch cf t y (sigma_of y) a d c = Inr (SingleV ?s, ?yfit)"
    by (simp add: single_branch_def call' perr item_def)
  then have "try_body cf Single t y (sigma_of y) =
      Inr \<lparr>cf_values = SingleV ?s, cf_yfit = ?yfit, cf_rmse = rmse_of y ?yfit\<rparr>"
    by (simp add: try_body_def g)
  then show ?thesis using err by simp
qed

text \<open>The second half of \<^verbatim>\<open>final_fit.py\<close> passes \<^verbatim>\<open>absolute_sigma=True\<close> too. On a series with a
  positive duration its guesses are those of \<^verbatim>\<open>Radioactive_Code.py\<close>, and all three standard
  errors differ by the same factor.\<close>

lemma initial_fits_conventions_differ:
  assumes resc: "rescales_covariance cf"
    and len: "3 < length y"
    and run: "radioactive_channel cf t y = Inr m"
    and tmx: "np_max t = Inr tmx" and tmn: "np_min t = Inr tmn" and dur: "0 < tmx - tmn"
  shows "\<exists>m1. initial_channel cf t y = Inr (Fitted m1) \<and>
           mf_N0 m1 = mf_N0 m \<and> mf_tau m1 = mf_tau m \<and> mf_c m1 = mf_c m \<and>
           mf_N0_err m =
             sqrt (reduced_chisq model_args t y (sigma_of y) [mf_N0 m, mf_tau m, mf_c m])
               * mf_N0_err m1 \<and>
           mf_tau_err m =
             sqrt (reduced_chisq model_args t y (sigma_of y) [mf_N0 m, mf_tau m, mf_c m])
               * mf_tau_err m1 \<and>
           mf_c_err m =
             sqrt (reduced_chisq model_args t y (sigma_of y) [mf_N0 m, mf_tau m, mf_c m])
               * mf_c_err m1"
proof -
  let ?p = "[mf_N0 m, mf_tau m, mf_c m]"
  from run obtain p0 where
    p0: "radioactive_p0 t y = Inr p0"
    and fit: "fit_model cf False t y p0 (sigma_of y) = Inr m"
    unfolding radioactive_channel_def by (auto simp: and_then_Inr Let_def)
  from p0 tmx tmn dur have ip0: "initial_p0 t y = Inr p0"
    unfolding radioactive_p0_def initial_p0_def
    by (auto simp: and_then_Inr Let_def)
  from p0 have "length p0 = 3"
    unfolding radioactive_p0_def by (auto simp: and_then_Inr Let_def)
  with len have len': "length p0 < length y" by simp
  from fit_model_rescaled [OF resc len' sigma_of_positive fit] obtain pcov e1 e2 e3 where
    call: "cf model_args t y p0 (sigma_of y) True
             ([Fin 0, Fin 0, NegInf], [PosInf, PosInf, PosInf]) = Inr (?p, pcov)"
    and perr: "np_sqrt (np_diag pcov) = [e1, e2, e3]"
    and err: "mf_N0_err m = sqrt (reduced_chisq model_args t y (sigma_of y) ?p) * e1"
      "mf_tau_err m = sqrt (reduced_chisq model_args t y (sigma_of y) ?p) * e2"
      "mf_c_err m = sqrt (reduced_chisq model_args t y (sigma_of y) ?p) * e3"
    by blast
  let ?yfit = "map (\<lambda>ti. model ti (mf_N0 m) (mf_tau m) (mf_c m)) t"
  let ?m1 = "\<lparr>mf_N0 = mf_N0 m, mf_tau = mf_tau m, mf_c = mf_c m,
               mf_N0_err = e1, mf_tau_err = e2, mf_c_err = e3,
               mf_yfit = ?yfit, mf_rmse = rmse_of y ?yfit\<rparr>"
  have "fit_model cf True t y p0 (sigma_of y) = Inr ?m1"
    by (simp add: fit_model_def call perr Let_def)
  then have "initial_channel cf t y = Inr (Fitted ?m1)"
    by (simp add: initial_channel_def ip0 Let_def)
  then show ?thesis using err by simp
qed

theorem absolute_sigma_conventions_differ_witness:
  "rescales_covariance (stand_in [] [0, 3, 0] [[1, 0, 0], [0, 4, 0], [0, 0, 9]]) \<and>
   3 < length [25, 16, 4, 4, 1 :: real] \<and>
   (\<exists>m r s.
      radioactive_channel (stand_in [] [0, 3, 0] [[1, 0, 0], [0, 4, 0], [0, 0, 9]])
        (ms_to_s [0, 1000, 2000, 3000, 4000]) [25, 16, 4, 4, 1] = Inr m \<and>
      try_body (stand_in [] [0, 3, 0] [[1, 0, 0], [0, 4, 0], [0, 0, 9]]) Single
        (ms_to_s [0, 1000, 2000, 3000, 4000]) [25, 16, 4, 4, 1]
        (sigma_of [25, 16, 4, 4, 1]) = Inr r \<and>
      cf_values r = SingleV s \<and>
      sf_A s = mf_N0 m \<and> sf_tau s = mf_tau m \<and> sf_c s = mf_c m \<and>
      mf_tau_err m = 10 \<and> sf_tau_err s = 2)"
proof -
  let ?S = "stand_in [] [0, 3, 0] [[1, 0, 0], [0, 4, 0], [0, 0, 9]]"
  let ?t = "ms_to_s [0, 1000, 2000, 3000, 4000]"
  let ?y = "[25, 16, 4, 4, 1 :: real]"
  have resc: "rescales_covariance ?S" by (rule stand_in_rescales)
  have len: "3 < length ?y" by simp
  from absolute_sigma_conventions_differ [OF resc len run_radioactive]
  obtain r s where
    run: "try_body ?S Single ?t ?y (sigma_of ?y) = Inr r" "cf_values r = SingleV s"
    and est: "sf_A s = 0" "sf_tau s = 3" "sf_c s = 0"
    and err: "10 = sqrt (reduced_chisq model_args ?t ?y (sigma_of ?y) [0, 3, 0]) * sf_tau_err s"
    by auto
  from err have "sf_tau_err s = 2"
    by (simp add: run_reduced_chisq)
  with run est run_radioactive resc len show ?thesis by simp
qed

end
